theory Spec2Isabelle
  imports Main "HOL-Library.Sublist"
begin

section \<open>Python strings and sequences, as condaci.py uses them\<close>

text \<open>
  The exceptions that the modelled part of condaci.py can raise: an out-of-range index
  (\<^verbatim>\<open>xs[i]\<close>), a subprocess that exits with a non-zero status
  (\<^verbatim>\<open>subprocess.check_output\<close>, \<^verbatim>\<open>subprocess.check_call\<close>), and bytes that are
  not UTF-8 (\<^verbatim>\<open>raw.decode("utf-8")\<close>).
\<close>

datatype error = IndexError | CalledProcessError | UnicodeDecodeError

text \<open>Sequencing of computations that may raise: the first exception is the result.\<close>

definition andThen :: "error + 'a \<Rightarrow> ('a \<Rightarrow> error + 'b) \<Rightarrow> error + 'b" where
  "andThen m k = (case m of Inl e \<Rightarrow> Inl e | Inr x \<Rightarrow> k x)"

text \<open>
  \<^verbatim>\<open>a and b\<close> on booleans: \<^verbatim>\<open>b\<close> is evaluated (and may raise) only when
  \<^verbatim>\<open>a\<close> is true.
\<close>

definition py_and :: "error + bool \<Rightarrow> error + bool \<Rightarrow> error + bool" where
  "py_and a b = (case a of Inl e \<Rightarrow> Inl e | Inr t \<Rightarrow> (if t then b else Inr False))"

text \<open>
  \<^verbatim>\<open>xs[i]\<close>: indices from \<open>0\<close> count from the front, negative indices from the
  back, anything else raises IndexError.
\<close>

definition item :: "'a list \<Rightarrow> int \<Rightarrow> error + 'a" where
  "item xs i =
     (if 0 \<le> i \<and> i < int (length xs) then Inr (xs ! nat i)
      else if i < 0 \<and> - int (length xs) \<le> i then Inr (xs ! nat (int (length xs) + i))
      else Inl IndexError)"

text \<open>
  \<^verbatim>\<open>s.split(sep)\<close> for a separator of one character: the pieces between the
  occurrences of the separator, empty pieces included; never the empty list.
\<close>

fun str_split :: "char \<Rightarrow> string \<Rightarrow> string list" where
  "str_split sep [] = [[]]"
| "str_split sep (c # cs) =
     (if c = sep then [] # str_split sep cs
      else (case str_split sep cs of
              [] \<Rightarrow> [[c]]
            | w # ws \<Rightarrow> (c # w) # ws))"

text \<open>\<^verbatim>\<open>s.startswith(p)\<close>.\<close>

fun startswith :: "string \<Rightarrow> string \<Rightarrow> bool" where
  "startswith s [] = True"
| "startswith [] (p # ps) = False"
| "startswith (c # cs) (p # ps) = (c = p \<and> startswith cs ps)"

text \<open>\<^verbatim>\<open>sub in s\<close> on strings: \<^verbatim>\<open>sub\<close> occurs in \<^verbatim>\<open>s\<close> as a contiguous run.\<close>

fun str_contains :: "string \<Rightarrow> string \<Rightarrow> bool" where
  "str_contains sub [] = (sub = [])"
| "str_contains sub (c # cs) = (startswith (c # cs) sub \<or> str_contains sub cs)"

text \<open>\<^verbatim>\<open>s.replace(a, b)\<close> for strings \<^verbatim>\<open>a\<close>, \<^verbatim>\<open>b\<close> of one character each.\<close>

definition str_replace :: "char \<Rightarrow> char \<Rightarrow> string \<Rightarrow> string" where
  "str_replace a b s = map (\<lambda>c. if c = a then b else c) s"

text \<open>\<^verbatim>\<open>sep.join(xs)\<close>.\<close>

fun str_join :: "string \<Rightarrow> string list \<Rightarrow> string" where
  "str_join sep [] = []"
| "str_join sep [x] = x"
| "str_join sep (x # y # ys) = x @ sep @ str_join sep (y # ys)"

section \<open>Version classification (condaci.py, lines 236 and 295-298)\<close>

text \<open>
  \<^verbatim>\<open>same_version_different_build = lambda v1, v2: v2.startswith(v1.split('+')[0])\<close>
\<close>

definition same_version_different_build :: "string \<Rightarrow> string \<Rightarrow> error + bool" where
  "same_version_different_build v1 v2 =
     andThen (item (str_split CHR ''+'' v1) 0) (\<lambda>base. Inr (startswith v2 base))"

text \<open>\<^verbatim>\<open>is_tag = lambda v: '+' not in v\<close>\<close>

definition is_tag :: "string \<Rightarrow> bool" where
  "is_tag v = (\<not> str_contains ''+'' v)"

text \<open>\<^verbatim>\<open>is_dev_tag = lambda v: v.split('.')[-1].startswith('dev')\<close>\<close>

definition is_dev_tag :: "string \<Rightarrow> error + bool" where
  "is_dev_tag v =
     andThen (item (str_split CHR ''.'' v) (- 1)) (\<lambda>comp. Inr (startswith comp ''dev''))"

text \<open>\<^verbatim>\<open>is_rc_tag = lambda v: 'rc' in v.split('+')[0]\<close>\<close>

definition is_rc_tag :: "string \<Rightarrow> error + bool" where
  "is_rc_tag v =
     andThen (item (str_split CHR ''+'' v) 0) (\<lambda>base. Inr (str_contains ''rc'' base))"

text \<open>
  \<^verbatim>\<open>is_release_tag = lambda v: is_tag(v) and not (is_rc_tag(v) or is_dev_tag(v))\<close>

  \<^verbatim>\<open>is_rc_tag(v)\<close> is evaluated only for a tag, and \<^verbatim>\<open>is_dev_tag(v)\<close> only
  when \<^verbatim>\<open>is_rc_tag(v)\<close> is false.
\<close>

definition is_release_tag :: "string \<Rightarrow> error + bool" where
  "is_release_tag v =
     (if is_tag v
      then andThen (is_rc_tag v) (\<lambda>rc.
             if rc then Inr False
             else andThen (is_dev_tag v) (\<lambda>dev. Inr (\<not> dev)))
      else Inr False)"

section \<open>Artifact metadata (condaci.py, lines 329-377)\<close>

text \<open>
  The script imports \<^verbatim>\<open>os.path\<close> as \<^verbatim>\<open>p\<close>, and \<^verbatim>\<open>p.split\<close> is the split of the
  host: \<^verbatim>\<open>posixpath.split\<close> on Linux and OS X, \<^verbatim>\<open>ntpath.split\<close> on Windows. The
  functions below that split a path take \<^verbatim>\<open>p.split\<close> as their first argument,
  \<open>p_split\<close>; the two splits of the standard library follow.

  \<^verbatim>\<open>posixpath.split\<close>: the tail is what follows the last slash, the head is everything
  before it, with its trailing slashes removed unless it consists of slashes only.
  \<^verbatim>\<open>
  i = p.rfind('/') + 1
  head, tail = p[:i], p[i:]
  if head and head != '/'*len(head):
      head = head.rstrip('/')
  return head, tail
  \<close>
\<close>

definition posixpath_split :: "string \<Rightarrow> string \<times> string" where
  "posixpath_split p =
     (let tail = rev (takeWhile (\<lambda>c. c \<noteq> CHR ''/'') (rev p));
          head = rev (dropWhile (\<lambda>c. c \<noteq> CHR ''/'') (rev p))
      in (if head \<noteq> [] \<and> head \<noteq> replicate (length head) CHR ''/''
          then rev (dropWhile (\<lambda>c. c = CHR ''/'') (rev head))
          else head,
          tail))"

text \<open>
  \<^verbatim>\<open>s.find(c, start)\<close> for a string \<^verbatim>\<open>c\<close> of one character: the first index from
  \<^verbatim>\<open>start\<close> on at which \<^verbatim>\<open>c\<close> occurs; \<open>None\<close> stands for the result \<open>-1\<close>.
\<close>

definition str_find :: "char \<Rightarrow> nat \<Rightarrow> string \<Rightarrow> nat option" where
  "str_find c start s =
     (if c \<in> set (drop start s)
      then Some (start + length (takeWhile (\<lambda>x. x \<noteq> c) (drop start s)))
      else None)"

text \<open>
  \<^verbatim>\<open>ntpath.splitdrive\<close>, as in Python 2.7.8 and 3.4, the versions the script names:
  a drive letter with its colon, or the machine and mount point of a path that begins with
  two separators, is the drive. (Releases of Python differ only on paths that begin with
  two separators.)
  \<^verbatim>\<open>
  if len(p) > 1:
      normp = p.replace(altsep, sep)
      if (normp[0:2] == sep*2) and (normp[2:3] != sep):
          index = normp.find(sep, 2)
          if index == -1:
              return '', p
          index2 = normp.find(sep, index + 1)
          if index2 == index + 1:
              return '', p
          if index2 == -1:
              index2 = len(p)
          return p[:index2], p[index2:]
      if normp[1:2] == ':':
          return p[:2], p[2:]
  return '', p
  \<close>
\<close>

definition ntpath_splitdrive :: "string \<Rightarrow> string \<times> string" where
  "ntpath_splitdrive p =
     (if 1 < length p
      then
        (let normp = str_replace CHR ''/'' (CHR 0x5C) p
         in if take 2 normp = [CHR 0x5C, CHR 0x5C] \<and> take 1 (drop 2 normp) \<noteq> [CHR 0x5C]
            then
              (case str_find (CHR 0x5C) 2 normp of
                 None \<Rightarrow> ([], p)
               | Some index \<Rightarrow>
                   (case str_find (CHR 0x5C) (index + 1) normp of
                      None \<Rightarrow> (take (length p) p, drop (length p) p)
                    | Some index2 \<Rightarrow>
                        if index2 = index + 1 then ([], p)
                        else (take index2 p, drop index2 p)))
            else if take 1 (drop 1 normp) = '':'' then (take 2 p, drop 2 p)
            else ([], p))
      else ([], p))"

text \<open>
  \<^verbatim>\<open>ntpath.split\<close>: the drive is set aside, the rest is split after its last slash or
  backslash, and the head loses its trailing separators unless it consists of separators
  only.
  \<^verbatim>\<open>
  d, p = splitdrive(p)
  i = len(p)
  while i and p[i-1] not in '/\\':
      i = i - 1
  head, tail = p[:i], p[i:]
  head2 = head
  while head2 and head2[-1] in '/\\':
      head2 = head2[:-1]
  head = head2 or head
  return d + head, tail
  \<close>
\<close>

definition ntpath_split :: "string \<Rightarrow> string \<times> string" where
  "ntpath_split p0 =
     (case ntpath_splitdrive p0 of
        (d, p) \<Rightarrow>
          (let tail = rev (takeWhile (\<lambda>c. c \<noteq> CHR ''/'' \<and> c \<noteq> CHR 0x5C) (rev p));
               head = rev (dropWhile (\<lambda>c. c \<noteq> CHR ''/'' \<and> c \<noteq> CHR 0x5C) (rev p));
               head2 = rev (dropWhile (\<lambda>c. c = CHR ''/'' \<or> c = CHR 0x5C) (rev head))
           in (d @ (if head2 \<noteq> [] then head2 else head), tail)))"

text \<open>
  \<^verbatim>\<open>class BinstarFile\<close>: the constructor only stores \<^verbatim>\<open>full_name\<close>; every field is
  a property that splits the stored string again when it is read.
\<close>

datatype BinstarFile = BinstarFile (full_name: string)

definition BinstarFile_user :: "BinstarFile \<Rightarrow> error + string" where
  "BinstarFile_user self = item (str_split CHR ''/'' (full_name self)) 0"

definition BinstarFile_name :: "BinstarFile \<Rightarrow> error + string" where
  "BinstarFile_name self = item (str_split CHR ''/'' (full_name self)) 1"

text \<open>\<^verbatim>\<open>'/'.join(self.full_name.split('/')[3:])\<close>: a slice never raises.\<close>

definition BinstarFile_basename :: "BinstarFile \<Rightarrow> string" where
  "BinstarFile_basename self = str_join ''/'' (drop 3 (str_split CHR ''/'' (full_name self)))"

definition BinstarFile_version :: "BinstarFile \<Rightarrow> error + string" where
  "BinstarFile_version self = item (str_split CHR ''/'' (full_name self)) 2"

text \<open>\<^verbatim>\<open>self.full_name.replace('\\', '/').split('/')[3]\<close>\<close>

definition BinstarFile_platform :: "BinstarFile \<Rightarrow> error + string" where
  "BinstarFile_platform self =
     item (str_split CHR ''/'' (str_replace (CHR 0x5C) CHR ''/'' (full_name self))) 3"

text \<open>
  \<^verbatim>\<open>self.full_name.replace('\\', '/').split('/')[4].split('-')[2].split('.')[0]\<close>
\<close>

definition BinstarFile_configuration :: "BinstarFile \<Rightarrow> error + string" where
  "BinstarFile_configuration self =
     andThen (item (str_split CHR ''/'' (str_replace (CHR 0x5C) CHR ''/'' (full_name self))) 4)
       (\<lambda>seg. andThen (item (str_split CHR ''-'' seg) 2)
          (\<lambda>tok. item (str_split CHR ''.'' tok) 0))"

text \<open>
  \<^verbatim>\<open>all_info\<close> reads the six fields in the order user, name, basename, version,
  platform, configuration, and joins one line for each.
\<close>

definition all_info :: "BinstarFile \<Rightarrow> error + string" where
  "all_info self =
     andThen (BinstarFile_user self) (\<lambda>u.
     andThen (BinstarFile_name self) (\<lambda>n.
     andThen (Inr (BinstarFile_basename self)) (\<lambda>b.
     andThen (BinstarFile_version self) (\<lambda>v.
     andThen (BinstarFile_platform self) (\<lambda>p.
     andThen (BinstarFile_configuration self) (\<lambda>c.
       Inr (str_join [CHR 0x0A]
              [''         user: '' @ u,
               ''         name: '' @ n,
               ''     basename: '' @ b,
               ''      version: '' @ v,
               ''     platform: '' @ p,
               ''configuration: '' @ c])))))))"

text \<open>
  \<^verbatim>\<open>configuration_from_binstar_filename = lambda fn: fn.split('-')[-1].split('.')[0]\<close>
\<close>

definition configuration_from_binstar_filename :: "string \<Rightarrow> error + string" where
  "configuration_from_binstar_filename fn =
     andThen (item (str_split CHR ''-'' fn) (- 1)) (\<lambda>tok. item (str_split CHR ''.'' tok) 0)"

text \<open>\<^verbatim>\<open>name_from_binstar_filename = lambda fn: fn.split('-')[0]\<close>\<close>

definition name_from_binstar_filename :: "string \<Rightarrow> error + string" where
  "name_from_binstar_filename fn = item (str_split CHR ''-'' fn) 0"

text \<open>\<^verbatim>\<open>version_from_binstar_filename = lambda fn: fn.split('-')[1]\<close>\<close>

definition version_from_binstar_filename :: "string \<Rightarrow> error + string" where
  "version_from_binstar_filename fn = item (str_split CHR ''-'' fn) 1"

text \<open>
  \<^verbatim>\<open>platform_from_binstar_filepath = lambda fp: p.split(p.split(fp)[0])[-1]\<close>:
  the name of the directory that holds the file.
\<close>

definition platform_from_binstar_filepath :: "(string \<Rightarrow> string \<times> string) \<Rightarrow> string \<Rightarrow> string" where
  "platform_from_binstar_filepath p_split fp = snd (p_split (fst (p_split fp)))"

section \<open>Retention (condaci.py, lines 380-469)\<close>

text \<open>
  The hosting service as the script sees it through the client \<^verbatim>\<open>b\<close>:
  \<^verbatim>\<open>b.show_channel(channel, user)['files']\<close> lists the \<^verbatim>\<open>full_name\<close> of every file
  of a channel, and \<^verbatim>\<open>b.remove_dist(user, name, version, basename)\<close> asks for a
  deletion; the deletions asked for are recorded in the order of the calls.
\<close>

record binstar =
  show_channel :: "string \<Rightarrow> string \<Rightarrow> string list"
  remove_dist :: "(string \<times> string \<times> string \<times> string) list"

text \<open>
  A list comprehension \<^verbatim>\<open>[g(x) for x in xs if c(x)]\<close> whose condition and whose
  element expression may raise: the elements are visited in order and the first exception
  ends the comprehension.
\<close>

fun comprehension :: "('a \<Rightarrow> error + 'b) \<Rightarrow> ('a \<Rightarrow> error + bool) \<Rightarrow> 'a list \<Rightarrow> error + 'b list" where
  "comprehension g c [] = Inr []"
| "comprehension g c (x # xs) =
     andThen (c x) (\<lambda>keep.
       if keep
       then andThen (g x) (\<lambda>y. andThen (comprehension g c xs) (\<lambda>ys. Inr (y # ys)))
       else comprehension g c xs)"

text \<open>
  \<^verbatim>\<open>return [BinstarFile(i['full_name']) for i in info['files']]\<close>
\<close>

definition binstar_files_on_channel :: "binstar \<Rightarrow> string \<Rightarrow> string \<Rightarrow> BinstarFile list" where
  "binstar_files_on_channel b user channel = map BinstarFile (show_channel b channel user)"

text \<open>
  \<^verbatim>\<open>b.remove_dist(bfile.user, bfile.name, bfile.version, bfile.basename)\<close>
\<close>

definition binstar_remove_file :: "binstar \<Rightarrow> BinstarFile \<Rightarrow> error + binstar" where
  "binstar_remove_file b bfile =
     andThen (BinstarFile_user bfile) (\<lambda>u.
     andThen (BinstarFile_name bfile) (\<lambda>n.
     andThen (BinstarFile_version bfile) (\<lambda>v.
       Inr (b\<lparr>remove_dist := remove_dist b @ [(u, n, v, BinstarFile_basename bfile)]\<rparr>))))"

text \<open>
  The condition of the comprehension that \<^verbatim>\<open>files_to_remove\<close> returns:
  \<^verbatim>\<open>
  f.name == name and
  f.configuration == configuration and
  f.platform == platform_ and
  f.version != version and
  not is_release_tag(f.version) and
  same_version_different_build(version, f.version)
  \<close>
\<close>

definition superseded :: "string \<Rightarrow> string \<Rightarrow> string \<Rightarrow> string \<Rightarrow> BinstarFile \<Rightarrow> error + bool" where
  "superseded name configuration platform version f =
     py_and (andThen (BinstarFile_name f) (\<lambda>n. Inr (n = name)))
    (py_and (andThen (BinstarFile_configuration f) (\<lambda>c. Inr (c = configuration)))
    (py_and (andThen (BinstarFile_platform f) (\<lambda>p. Inr (p = platform)))
    (py_and (andThen (BinstarFile_version f) (\<lambda>v. Inr (v \<noteq> version)))
    (py_and (andThen (BinstarFile_version f) (\<lambda>v.
               andThen (is_release_tag v) (\<lambda>r. Inr (\<not> r))))
            (andThen (BinstarFile_version f) (\<lambda>v.
               same_version_different_build version v))))))"

text \<open>
  \<^verbatim>\<open>files_to_remove(b, user, channel, filepath)\<close>. Before the result is computed,
  \<^verbatim>\<open>pprint([f.all_info() for f in all_files if f.name == name])\<close> reads every field of
  every hosted file of the same name; what it prints is not kept, what it raises is.
\<close>

definition files_to_remove ::
  "(string \<Rightarrow> string \<times> string) \<Rightarrow> binstar \<Rightarrow> string \<Rightarrow> string \<Rightarrow> string \<Rightarrow>
   error + BinstarFile list" where
  "files_to_remove p_split b user channel filepath =
     (let platform = platform_from_binstar_filepath p_split filepath;
          filename = snd (p_split filepath)
      in andThen (name_from_binstar_filename filename) (\<lambda>name.
         andThen (version_from_binstar_filename filename) (\<lambda>version.
         andThen (configuration_from_binstar_filename filename) (\<lambda>configuration.
           let all_files = binstar_files_on_channel b user channel
           in andThen (comprehension all_info
                         (\<lambda>f. andThen (BinstarFile_name f) (\<lambda>n. Inr (n = name))) all_files)
                (\<lambda>printed.
                   comprehension Inr
                     (superseded name configuration platform version) all_files)))))"

text \<open>
  \<^verbatim>\<open>
  for old_file in to_remove:
      binstar_remove_file(b, old_file)
  \<close>
\<close>

fun remove_each :: "binstar \<Rightarrow> BinstarFile list \<Rightarrow> error + binstar" where
  "remove_each b [] = Inr b"
| "remove_each b (old_file # rest) =
     andThen (binstar_remove_file b old_file) (\<lambda>b'. remove_each b' rest)"

definition purge_old_binstar_files ::
  "(string \<Rightarrow> string \<times> string) \<Rightarrow> binstar \<Rightarrow> string \<Rightarrow> string \<Rightarrow> string \<Rightarrow>
   error + binstar" where
  "purge_old_binstar_files p_split b user channel filepath =
     andThen (files_to_remove p_split b user channel filepath) (\<lambda>to_remove. remove_each b to_remove)"

text \<open>
  \<^verbatim>\<open>binstar_upload_and_purge(mc, key, user, channel, filepath)\<close>. The upload itself is the
  command \<^verbatim>\<open>binstar upload --force\<close>, run by \<^verbatim>\<open>binstar_upload_unchecked\<close>, and
  \<^verbatim>\<open>login_to_binstar_with_key\<close> then opens the client \<^verbatim>\<open>b\<close>. Both belong to the
  hosting service and are the parameter \<open>upload\<close>, which either raises or leaves the
  service in a new state, the one that the client then sees.
  \<^verbatim>\<open>
  binstar_upload_unchecked(mc, key, user, channel, filepath)
  b = login_to_binstar_with_key(key)
  if channel != 'main':
      purge_old_binstar_files(b, user, channel, filepath)
  \<close>
\<close>

definition binstar_upload_and_purge ::
  "(string \<Rightarrow> string \<times> string) \<Rightarrow>
   (string \<Rightarrow> string \<Rightarrow> string \<Rightarrow> string \<Rightarrow> string \<Rightarrow> binstar \<Rightarrow> error + binstar) \<Rightarrow>
   binstar \<Rightarrow> string \<Rightarrow> string \<Rightarrow> string \<Rightarrow> string \<Rightarrow> string \<Rightarrow> error + binstar" where
  "binstar_upload_and_purge p_split upload service mc key user channel filepath =
     andThen (upload mc key user channel filepath service) (\<lambda>b.
       if channel \<noteq> ''main''
       then purge_old_binstar_files p_split b user channel filepath
       else Inr b)"

section \<open>Version from git (condaci.py, lines 259-278)\<close>

text \<open>\<^verbatim>\<open>s.strip()\<close>: leading and trailing white space removed.\<close>

definition is_space :: "char \<Rightarrow> bool" where
  "is_space c = (c \<in> set [CHR 0x20, CHR 0x09, CHR 0x0A, CHR 0x0B, CHR 0x0C, CHR 0x0D])"

definition str_strip :: "string \<Rightarrow> string" where
  "str_strip s = rev (dropWhile is_space (rev (dropWhile is_space s)))"

text \<open>\<^verbatim>\<open>c.lower()\<close> for one character: the letters A to Z move to a to z.\<close>

definition lower :: "char \<Rightarrow> char" where
  "lower c = (let n = (of_char c :: nat) in if 65 \<le> n \<and> n \<le> 90 then char_of (n + 32) else c)"

definition git_warning :: string where
  "git_warning = ''warning - could not interpret version string from git - you may have a non-PEP440 version string''"

text \<open>
  \<^verbatim>\<open>raw.decode("utf-8")\<close> accepts exactly the well-formed UTF-8 byte sequences: one
  byte below \<open>0x80\<close>, or a lead byte \<open>0xC2\<close> to \<open>0xF4\<close> followed by one, two or three
  continuation bytes \<open>0x80\<close> to \<open>0xBF\<close>, the first of them further restricted after
  \<open>0xE0\<close>, \<open>0xED\<close>, \<open>0xF0\<close> and \<open>0xF4\<close>, so that no encoding is longer than needed, no
  surrogate is encoded and nothing lies beyond \<open>U+10FFFF\<close>. The scan below reads the bytes
  from the left; \<open>k\<close> is the number of continuation bytes still due, and \<open>lo\<close> and
  \<open>hi\<close> bound the next one.
\<close>

fun utf8_scan :: "nat \<Rightarrow> nat \<Rightarrow> nat \<Rightarrow> nat list \<Rightarrow> bool" where
  "utf8_scan k lo hi [] = (k = 0)"
| "utf8_scan k lo hi (b # bs) =
     (if k = 0
      then (if b < 0x80 then utf8_scan 0 0x80 0xBF bs
            else if 0xC2 \<le> b \<and> b \<le> 0xDF then utf8_scan 1 0x80 0xBF bs
            else if b = 0xE0 then utf8_scan 2 0xA0 0xBF bs
            else if b = 0xED then utf8_scan 2 0x80 0x9F bs
            else if 0xE1 \<le> b \<and> b \<le> 0xEF then utf8_scan 2 0x80 0xBF bs
            else if b = 0xF0 then utf8_scan 3 0x90 0xBF bs
            else if b = 0xF4 then utf8_scan 3 0x80 0x8F bs
            else if 0xF1 \<le> b \<and> b \<le> 0xF3 then utf8_scan 3 0x80 0xBF bs
            else False)
      else lo \<le> b \<and> b \<le> hi \<and> utf8_scan (k - 1) 0x80 0xBF bs)"

definition utf8 :: "string \<Rightarrow> bool" where
  "utf8 s = utf8_scan 0 0x80 0xBF (map of_char s)"

text \<open>
  A decoded string is kept here as its UTF-8 bytes. What \<^verbatim>\<open>version_from_git_tags\<close> does
  after the decoding looks for the characters \<open>v\<close>, \<open>V\<close> and \<open>-\<close> only, which are
  single bytes in UTF-8 and are part of no longer sequence, and \<open>V\<close> is the only other
  character that \<^verbatim>\<open>lower()\<close> turns into \<open>v\<close>: so the first character is \<open>v\<close> or \<open>V\<close>
  exactly when the first byte is, dropping it drops one byte, and the string splits at its
  dashes where its bytes do.
\<close>

definition decode_utf8 :: "string \<Rightarrow> error + string" where
  "decode_utf8 raw = (if utf8 raw then Inr raw else Inl UnicodeDecodeError)"

text \<open>
  \<^verbatim>\<open>version_from_git_tags()\<close>, as a function of \<^verbatim>\<open>sys.version_info.major\<close> and of what
  \<^verbatim>\<open>git describe --tags\<close> did: its exit status and its output. \<^verbatim>\<open>check_output\<close>
  raises on a non-zero status. The result is the list of the lines printed and the version
  returned.
  \<^verbatim>\<open>
  raw = subprocess.check_output(['git', 'describe', '--tags']).strip()
  if sys.version_info.major == 3:
      raw = raw.decode("utf-8")
  if raw[0].lower() == 'v':
      raw = raw[1:]
  try:
      v, n_commits, sha = raw.split('-')
  except ValueError:
      print('warning - ...')
      return raw
  else:
      return v + '+' + n_commits + '.' + sha
  \<close>
\<close>

definition version_from_git_tags :: "int \<Rightarrow> int \<times> string \<Rightarrow> error + (string list \<times> string)" where
  "version_from_git_tags major described =
     (case described of (returncode, output) \<Rightarrow>
        if returncode \<noteq> 0 then Inl CalledProcessError
        else
          let raw = str_strip output
          in andThen (if major = 3 then decode_utf8 raw else Inr raw) (\<lambda>raw.
             andThen (item raw 0) (\<lambda>c0.
               let raw = (if lower c0 = CHR ''v'' then drop 1 raw else raw)
               in (case str_split CHR ''-'' raw of
                     [v, n_commits, sha] \<Rightarrow> Inr ([], v @ ''+'' @ n_commits @ ''.'' @ sha)
                   | _ \<Rightarrow> Inr ([git_warning], raw)))))"

section \<open>The retention rule in the words of the specification\<close>

text \<open>
  The name, version and configuration of the new artifact: the first, the second and the
  last token of its file name, the last one cut at its first dot.
\<close>

definition new_filename :: "(string \<Rightarrow> string \<times> string) \<Rightarrow> string \<Rightarrow> string" where
  "new_filename p_split filepath = snd (p_split filepath)"

definition new_name :: "(string \<Rightarrow> string \<times> string) \<Rightarrow> string \<Rightarrow> string" where
  "new_name p_split filepath = hd (str_split CHR ''-'' (new_filename p_split filepath))"

definition new_version :: "(string \<Rightarrow> string \<times> string) \<Rightarrow> string \<Rightarrow> string" where
  "new_version p_split filepath = str_split CHR ''-'' (new_filename p_split filepath) ! 1"

definition new_configuration :: "(string \<Rightarrow> string \<times> string) \<Rightarrow> string \<Rightarrow> string" where
  "new_configuration p_split filepath =
     takeWhile (\<lambda>c. c \<noteq> CHR ''.'') (last (str_split CHR ''-'' (new_filename p_split filepath)))"

text \<open>
  A hosted record is a removal candidate for the new artifact: same name, same
  configuration, same platform, a different version that is not a release tag and lies on
  the release line of the new version.
\<close>

definition removal_candidate ::
  "(string \<Rightarrow> string \<times> string) \<Rightarrow> string \<Rightarrow> BinstarFile \<Rightarrow> bool" where
  "removal_candidate p_split filepath f =
     (BinstarFile_name f = Inr (new_name p_split filepath) \<and>
      BinstarFile_configuration f = Inr (new_configuration p_split filepath) \<and>
      BinstarFile_platform f = Inr (platform_from_binstar_filepath p_split filepath) \<and>
      (case BinstarFile_version f of
         Inl e \<Rightarrow> False
       | Inr v \<Rightarrow> v \<noteq> new_version p_split filepath \<and>
                 is_release_tag v = Inr False \<and>
                 same_version_different_build (new_version p_split filepath) v = Inr True))"

text \<open>
  Every field of a hosted record can be read: three segments between slashes, five once
  its backslashes are slashes, and three tokens between dashes in segment 4 of the latter.
\<close>

definition well_formed :: "BinstarFile \<Rightarrow> bool" where
  "well_formed f =
     (3 \<le> length (str_split CHR ''/'' (full_name f)) \<and>
      5 \<le> length (str_split CHR ''/'' (str_replace (CHR 0x5C) CHR ''/'' (full_name f))) \<and>
      3 \<le> length (str_split CHR ''-''
             (str_split CHR ''/'' (str_replace (CHR 0x5C) CHR ''/'' (full_name f)) ! 4)))"

text \<open>
  What \<^verbatim>\<open>files_to_remove\<close> needs in order to return: a file name of two tokens at
  least, a name for every hosted record, and every field for the hosted records that have
  the name of the new artifact.
\<close>

definition readable ::
  "(string \<Rightarrow> string \<times> string) \<Rightarrow> string \<Rightarrow> BinstarFile list \<Rightarrow> bool" where
  "readable p_split filepath hosted =
     (2 \<le> length (str_split CHR ''-'' (new_filename p_split filepath)) \<and>
      (\<forall>f \<in> set hosted.
          2 \<le> length (str_split CHR ''/'' (full_name f)) \<and>
          (BinstarFile_name f = Inr (new_name p_split filepath) \<longrightarrow> well_formed f)))"

section \<open>Inputs for the examples and the raw output of git\<close>

text \<open>
  A build path on Windows: \<^verbatim>\<open>C:\Miniconda\conda-bld\win-64\widget-1.3.0+2.def-py27.tar.bz2\<close>.
\<close>

definition windows_build_path :: string where
  "windows_build_path =
     ''C:'' @ [CHR 0x5C] @ ''Miniconda'' @ [CHR 0x5C] @ ''conda-bld'' @ [CHR 0x5C] @
     ''win-64'' @ [CHR 0x5C] @ ''widget-1.3.0+2.def-py27.tar.bz2''"

text \<open>A service on which every channel of every user lists the same files.\<close>

definition service_listing :: "string list \<Rightarrow> binstar" where
  "service_listing names = \<lparr>show_channel = (\<lambda>channel user. names), remove_dist = []\<rparr>"

text \<open>
  The output of \<^verbatim>\<open>git describe\<close> without the one leading \<open>v\<close> or \<open>V\<close> that a tag
  commonly carries.
\<close>

definition strip_v :: "string \<Rightarrow> string" where
  "strip_v raw =
     (case raw of
        [] \<Rightarrow> []
      | c # cs \<Rightarrow> if c = CHR ''v'' \<or> c = CHR ''V'' then cs else raw)"

text \<open>An upload that succeeds and changes nothing that the client reads afterwards.\<close>

definition upload_accepted ::
  "string \<Rightarrow> string \<Rightarrow> string \<Rightarrow> string \<Rightarrow> string \<Rightarrow> binstar \<Rightarrow> error + binstar" where
  "upload_accepted mc key user channel path service = Inr service"

section \<open>Facts about the string operations\<close>

lemma str_split_not_Nil: "str_split sep s \<noteq> []"
  by (induction s) (simp_all split: list.split)

lemma length_str_split: "length (str_split sep s) = Suc (length (filter (\<lambda>c. c = sep) s))"
  by (induction s) (auto split: list.split)

lemma hd_str_split: "hd (str_split sep s) = takeWhile (\<lambda>c. c \<noteq> sep) s"
  by (induction s) (auto split: list.split simp: str_split_not_Nil)

lemma str_split_no_sep: "sep \<notin> set s \<Longrightarrow> str_split sep s = [s]"
  by (induction s) auto

lemma last_str_split: "last (str_split sep s) = rev (takeWhile (\<lambda>c. c \<noteq> sep) (rev s))"
proof (induction s)
  case Nil
  then show ?case by simp
next
  case (Cons x xs)
  show ?case
  proof (cases "sep \<in> set xs")
    case True
    then have two: "2 \<le> length (str_split sep xs)"
      by (simp add: length_str_split) (metis (mono_tags, lifting) filter_empty_conv length_greater_0_conv Suc_leI)
    then obtain w w' ws where ws: "str_split sep xs = w # w' # ws"
      by (cases "str_split sep xs"; cases "tl (str_split sep xs)") auto
    from True have tw: "takeWhile (\<lambda>c. c \<noteq> sep) (rev xs @ [x]) = takeWhile (\<lambda>c. c \<noteq> sep) (rev xs)"
      by (simp add: takeWhile_append1)
    show ?thesis using Cons ws tw by simp
  next
    case False
    then have one: "str_split sep xs = [xs]" by (rule str_split_no_sep)
    from False have tw: "takeWhile (\<lambda>c. c \<noteq> sep) (rev xs) = rev xs"
      by auto
    have all: "\<And>y. y \<in> set (rev xs) \<Longrightarrow> y \<noteq> sep" using False by auto
    have tw2: "takeWhile (\<lambda>c. c \<noteq> sep) (rev xs @ [x]) = (if x = sep then rev xs else rev xs @ [x])"
      using takeWhile_append2 [of "rev xs" "\<lambda>c. c \<noteq> sep" "[x]", OF all] by simp
    show ?thesis using one tw tw2 by simp
  qed
qed

lemma startswith_prefix: "startswith s p = prefix p s"
  by (induction s p rule: startswith.induct) auto

lemma str_contains_sublist: "str_contains sub s = sublist sub s"
  by (induction s) (simp_all add: startswith_prefix sublist_Cons_right)

lemma str_contains_char: "str_contains [x] s = (x \<in> set s)"
  by (induction s) auto

lemma item_0: "xs \<noteq> [] \<Longrightarrow> item xs 0 = Inr (hd xs)"
  by (cases xs) (simp_all add: item_def)

lemma item_last: "xs \<noteq> [] \<Longrightarrow> item xs (- 1) = Inr (last xs)"
  by (simp add: item_def last_conv_nth nat_diff_distrib' Suc_leI) 

lemma item_split_0: "item (str_split sep s) 0 = Inr (takeWhile (\<lambda>c. c \<noteq> sep) s)"
  by (simp add: item_0 str_split_not_Nil hd_str_split)

lemma item_split_last:
  "item (str_split sep s) (- 1) = Inr (rev (takeWhile (\<lambda>c. c \<noteq> sep) (rev s)))"
  by (simp add: item_last str_split_not_Nil last_str_split)

lemma is_tag_iff: "is_tag v = (CHR ''+'' \<notin> set v)"
  by (simp add: is_tag_def str_contains_char)

lemma is_rc_tag_eq: "is_rc_tag v = Inr (sublist ''rc'' (takeWhile (\<lambda>c. c \<noteq> CHR ''+'') v))"
  by (simp add: is_rc_tag_def item_split_0 andThen_def str_contains_sublist)

lemma is_dev_tag_eq:
  "is_dev_tag v = Inr (prefix ''dev'' (rev (takeWhile (\<lambda>c. c \<noteq> CHR ''.'') (rev v))))"
  by (simp add: is_dev_tag_def item_split_last andThen_def startswith_prefix)

lemma is_release_tag_eq:
  "is_release_tag v =
     Inr (is_tag v \<and> \<not> sublist ''rc'' (takeWhile (\<lambda>c. c \<noteq> CHR ''+'') v)
                   \<and> \<not> prefix ''dev'' (rev (takeWhile (\<lambda>c. c \<noteq> CHR ''.'') (rev v))))"
  by (simp add: is_release_tag_def is_rc_tag_eq is_dev_tag_eq andThen_def)

lemma same_version_different_build_eq:
  "same_version_different_build v1 v2 = Inr (prefix (takeWhile (\<lambda>c. c \<noteq> CHR ''+'') v1) v2)"
  by (simp add: same_version_different_build_def item_split_0 andThen_def startswith_prefix)

lemma item_nonneg:
  "0 \<le> i \<Longrightarrow> item xs i = (if nat i < length xs then Inr (xs ! nat i) else Inl IndexError)"
  by (auto simp: item_def)

lemma andThen_Inr [simp]: "andThen (Inr x) k = k x"
  by (simp add: andThen_def)

lemma andThen_Inl [simp]: "andThen (Inl e) k = Inl e"
  by (simp add: andThen_def)

lemma andThen_eq_Inr: "andThen m k = Inr y \<longleftrightarrow> (\<exists>x. m = Inr x \<and> k x = Inr y)"
  by (cases m) simp_all

lemma py_and_simps [simp]:
  "py_and (Inl e) b = Inl e" "py_and (Inr True) b = b" "py_and (Inr False) b = Inr False"
  by (simp_all add: py_and_def)

lemma filter_length_mono:
  "(\<And>x. P x \<Longrightarrow> Q x) \<Longrightarrow> length (filter P xs) \<le> length (filter Q xs)"
  by (induction xs) auto

lemma length_str_split_replace:
  "length (str_split b s) \<le> length (str_split b (str_replace a b s))"
proof -
  have "length (filter (\<lambda>c. c = b) s) \<le> length (filter (\<lambda>c. (if c = a then b else c) = b) s)"
    by (rule filter_length_mono) simp
  then show ?thesis
    by (simp add: length_str_split str_replace_def filter_map comp_def)
qed

lemma str_replace_absent: "a \<notin> set s \<Longrightarrow> str_replace a b s = s"
  by (induction s) (auto simp: str_replace_def)

lemma comprehension_Inr:
  "(\<And>x. x \<in> set xs \<Longrightarrow> \<exists>t. c x = Inr t \<and> (t \<longrightarrow> (\<exists>y. g x = Inr y))) \<Longrightarrow>
   comprehension g c xs = Inr (map (\<lambda>x. projr (g x)) (filter (\<lambda>x. c x = Inr True) xs))"
proof (induction xs)
  case Nil
  then show ?case by simp
next
  case (Cons x xs)
  from Cons.prems [of x] obtain t where t: "c x = Inr t" "t \<longrightarrow> (\<exists>y. g x = Inr y)" by auto
  have IH: "comprehension g c xs = Inr (map (\<lambda>x. projr (g x)) (filter (\<lambda>x. c x = Inr True) xs))"
    by (rule Cons.IH) (simp add: Cons.prems)
  show ?case using t IH by (cases t) auto
qed

lemma comprehension_Inr_D:
  "comprehension g c xs = Inr ys \<Longrightarrow> x \<in> set xs \<Longrightarrow>
   \<exists>t. c x = Inr t \<and> (t \<longrightarrow> (\<exists>y. g x = Inr y))"
proof (induction xs arbitrary: ys)
  case Nil
  then show ?case by simp
next
  case (Cons z zs)
  from Cons.prems(1) obtain t where t: "c z = Inr t"
    by (cases "c z") simp_all
  show ?case
  proof (cases t)
    case True
    with t Cons.prems(1) obtain y where y: "g z = Inr y" by (cases "g z") simp_all
    with True t Cons.prems(1) obtain ys' where "comprehension g c zs = Inr ys'"
      by (cases "comprehension g c zs") simp_all
    with Cons.IH [of ys'] Cons.prems(2) t True y show ?thesis by auto
  next
    case False
    with t Cons.prems(1) have "comprehension g c zs = Inr ys" by simp
    with Cons.IH [of ys] Cons.prems(2) t False show ?thesis by auto
  qed
qed

lemma BinstarFile_user_eq: "BinstarFile_user (BinstarFile fn) = Inr (takeWhile (\<lambda>c. c \<noteq> CHR ''/'') fn)"
  by (simp add: BinstarFile_user_def item_split_0)

section \<open>Facts about the retention functions\<close>

lemma item_error: "item xs i = Inl e \<Longrightarrow> e = IndexError"
  by (auto simp: item_def split: if_splits)

lemma andThen_eq_Inl: "andThen m k = Inl e \<longleftrightarrow> m = Inl e \<or> (\<exists>x. m = Inr x \<and> k x = Inl e)"
  by (cases m) simp_all

lemma name_error: "BinstarFile_name f = Inl e \<Longrightarrow> e = IndexError"
  by (auto simp: BinstarFile_name_def dest: item_error)
lemma user_error: "BinstarFile_user f = Inl e \<Longrightarrow> e = IndexError"
  by (auto simp: BinstarFile_user_def dest: item_error)
lemma version_error: "BinstarFile_version f = Inl e \<Longrightarrow> e = IndexError"
  by (auto simp: BinstarFile_version_def dest: item_error)
lemma platform_error: "BinstarFile_platform f = Inl e \<Longrightarrow> e = IndexError"
  by (auto simp: BinstarFile_platform_def dest: item_error)
lemma configuration_error: "BinstarFile_configuration f = Inl e \<Longrightarrow> e = IndexError"
  by (auto simp: BinstarFile_configuration_def andThen_eq_Inl dest: item_error)
lemma all_info_error: "all_info f = Inl e \<Longrightarrow> e = IndexError"
  by (auto simp: all_info_def andThen_eq_Inl
      dest: name_error user_error version_error platform_error configuration_error)

lemma name_Inr_iff:
  "(\<exists>n. BinstarFile_name f = Inr n) \<longleftrightarrow> 2 \<le> length (str_split CHR ''/'' (full_name f))"
  by (auto simp: BinstarFile_name_def item_nonneg split: if_splits)

lemma all_info_Inr_iff: "(\<exists>s. all_info f = Inr s) \<longleftrightarrow> well_formed f"
  by (auto simp: all_info_def andThen_eq_Inr well_formed_def BinstarFile_user_def
       BinstarFile_name_def BinstarFile_version_def BinstarFile_platform_def
       BinstarFile_configuration_def item_nonneg item_split_0 str_split_not_Nil split: if_splits)

lemma well_formed_fields:
  "well_formed f \<Longrightarrow> \<exists>n c p v. BinstarFile_name f = Inr n \<and> BinstarFile_configuration f = Inr c \<and>
     BinstarFile_platform f = Inr p \<and> BinstarFile_version f = Inr v"
  by (auto simp: well_formed_def 
       BinstarFile_name_def BinstarFile_version_def BinstarFile_platform_def
       BinstarFile_configuration_def item_nonneg item_split_0 str_split_not_Nil split: if_splits)

lemma superseded_other_name:
  "BinstarFile_name f = Inr n \<Longrightarrow> n \<noteq> name \<Longrightarrow>
   superseded name configuration platform version f = Inr False"
  by (simp add: superseded_def)

lemma superseded_same_name:
  "BinstarFile_name f = Inr name \<Longrightarrow> BinstarFile_configuration f = Inr c \<Longrightarrow>
   BinstarFile_platform f = Inr p \<Longrightarrow> BinstarFile_version f = Inr v \<Longrightarrow>
   superseded name configuration platform version f =
     Inr (c = configuration \<and> p = platform \<and> v \<noteq> version \<and> is_release_tag v = Inr False \<and>
          same_version_different_build version v = Inr True)"
  by (simp add: superseded_def is_release_tag_eq same_version_different_build_eq py_and_def)

lemma new_artifact_fields:
  assumes "2 \<le> length (str_split CHR ''-'' (new_filename p_split filepath))"
  shows "name_from_binstar_filename (snd (p_split filepath)) = Inr (new_name p_split filepath)"
    and "version_from_binstar_filename (snd (p_split filepath)) = Inr (new_version p_split filepath)"
    and "configuration_from_binstar_filename (snd (p_split filepath)) = Inr (new_configuration p_split filepath)"
  using assms
  by (simp_all add: name_from_binstar_filename_def version_from_binstar_filename_def
      configuration_from_binstar_filename_def new_name_def new_version_def new_configuration_def
      new_filename_def item_0 item_last item_nonneg item_split_0 str_split_not_Nil hd_str_split)

lemma superseded_eq_candidate:
  assumes n: "BinstarFile_name f = Inr n"
    and wf: "n = new_name p_split filepath \<Longrightarrow> well_formed f"
  shows "superseded (new_name p_split filepath) (new_configuration p_split filepath)
           (platform_from_binstar_filepath p_split filepath) (new_version p_split filepath) f =
         Inr (removal_candidate p_split filepath f)"
proof (cases "n = new_name p_split filepath")
  case False
  with n show ?thesis
    by (simp add: superseded_other_name removal_candidate_def)
next
  case True
  from wf [OF True] obtain n' c p v where
    flds: "BinstarFile_name f = Inr n'" "BinstarFile_configuration f = Inr c"
      "BinstarFile_platform f = Inr p" "BinstarFile_version f = Inr v"
    using well_formed_fields by blast
  with n True have nm: "BinstarFile_name f = Inr (new_name p_split filepath)" by simp
  show ?thesis
    using superseded_same_name [OF nm flds(2) flds(3) flds(4)] nm flds
    by (simp add: removal_candidate_def)
qed

lemma superseded_error:
  "superseded name configuration platform version f = Inl e \<Longrightarrow> e = IndexError"
  by (auto simp: superseded_def py_and_def andThen_eq_Inl is_release_tag_eq
        same_version_different_build_eq
      split: sum.splits if_splits
      dest: name_error configuration_error platform_error version_error)

lemma comprehension_error:
  "comprehension g c xs = Inl e \<Longrightarrow> \<exists>x \<in> set xs. c x = Inl e \<or> g x = Inl e"
  by (induction xs) (auto simp: andThen_eq_Inl split: if_splits)

lemma files_to_remove_readable:
  assumes r: "readable p_split filepath (binstar_files_on_channel b user channel)"
  shows "files_to_remove p_split b user channel filepath =
         Inr (filter (removal_candidate p_split filepath) (binstar_files_on_channel b user channel))"
proof -
  let ?hosted = "binstar_files_on_channel b user channel"
  let ?same = "\<lambda>f. andThen (BinstarFile_name f) (\<lambda>n. Inr (n = new_name p_split filepath))"
  let ?sup = "superseded (new_name p_split filepath) (new_configuration p_split filepath)
                (platform_from_binstar_filepath p_split filepath) (new_version p_split filepath)"
  from r have tokens: "2 \<le> length (str_split CHR ''-'' (new_filename p_split filepath))"
    by (simp add: readable_def)
  have each: "\<exists>n. BinstarFile_name f = Inr n \<and> (n = new_name p_split filepath \<longrightarrow> well_formed f)"
    if "f \<in> set ?hosted" for f
  proof -
    from r that have two: "2 \<le> length (str_split CHR ''/'' (full_name f))"
      and wf: "BinstarFile_name f = Inr (new_name p_split filepath) \<longrightarrow> well_formed f"
      by (simp_all add: readable_def)
    from two obtain n where "BinstarFile_name f = Inr n"
      using name_Inr_iff [of f] by blast
    with wf show ?thesis by auto
  qed
  have printed: "\<exists>ys. comprehension all_info ?same ?hosted = Inr ys"
  proof -
    have "\<exists>t. ?same f = Inr t \<and> (t \<longrightarrow> (\<exists>y. all_info f = Inr y))" if "f \<in> set ?hosted" for f
      using each [OF that] all_info_Inr_iff [of f] by auto
    then show ?thesis
      using comprehension_Inr [of ?hosted ?same all_info] by blast
  qed
  have sup: "?sup f = Inr (removal_candidate p_split filepath f)" if "f \<in> set ?hosted" for f
    using each [OF that] superseded_eq_candidate [of f _ p_split filepath] by blast
  have "comprehension Inr ?sup ?hosted =
        Inr (map (\<lambda>x. projr (Inr x :: error + BinstarFile)) (filter (\<lambda>x. ?sup x = Inr True) ?hosted))"
    by (rule comprehension_Inr) (simp add: sup)
  moreover have "filter (\<lambda>x. ?sup x = Inr True) ?hosted = filter (removal_candidate p_split filepath) ?hosted"
    by (rule filter_cong) (simp_all add: sup)
  ultimately have kept: "comprehension Inr ?sup ?hosted = Inr (filter (removal_candidate p_split filepath) ?hosted)"
    by simp
  from printed obtain ys where ys: "comprehension all_info ?same ?hosted = Inr ys" ..
  show ?thesis
    using new_artifact_fields [OF tokens] ys kept
    by (simp add: files_to_remove_def Let_def)
qed

lemma files_to_remove_Inr_readable:
  assumes ok: "files_to_remove p_split b user channel filepath = Inr r"
  shows "readable p_split filepath (binstar_files_on_channel b user channel)"
proof -
  let ?hosted = "binstar_files_on_channel b user channel"
  from ok obtain name version ys where
    nm: "name_from_binstar_filename (snd (p_split filepath)) = Inr name"
    and vs: "version_from_binstar_filename (snd (p_split filepath)) = Inr version"
    and pr: "comprehension all_info (\<lambda>f. andThen (BinstarFile_name f) (\<lambda>n. Inr (n = name))) ?hosted = Inr ys"
    by (auto simp: files_to_remove_def Let_def andThen_eq_Inr)
  from vs have tokens: "2 \<le> length (str_split CHR ''-'' (new_filename p_split filepath))"
    by (auto simp: version_from_binstar_filename_def new_filename_def item_nonneg split: if_splits)
  from nm have name: "name = new_name p_split filepath"
    by (simp add: name_from_binstar_filename_def new_name_def new_filename_def item_0 str_split_not_Nil)
  have "2 \<le> length (str_split CHR ''/'' (full_name f)) \<and>
        (BinstarFile_name f = Inr (new_name p_split filepath) \<longrightarrow> well_formed f)"
    if "f \<in> set ?hosted" for f
  proof -
    from comprehension_Inr_D [OF pr that] obtain t where
      t: "andThen (BinstarFile_name f) (\<lambda>n. Inr (n = name)) = Inr t"
         "t \<longrightarrow> (\<exists>y. all_info f = Inr y)" by blast
    from t(1) obtain n where n: "BinstarFile_name f = Inr n" "t = (n = name)"
      by (auto simp: andThen_eq_Inr)
    from n(1) have "2 \<le> length (str_split CHR ''/'' (full_name f))"
      using name_Inr_iff [of f] by blast
    moreover from n t(2) name have "BinstarFile_name f = Inr (new_name p_split filepath) \<longrightarrow> well_formed f"
      using all_info_Inr_iff [of f] by auto
    ultimately show ?thesis by simp
  qed
  with tokens show ?thesis by (simp add: readable_def)
qed

lemma files_to_remove_error:
  assumes bad: "files_to_remove p_split b user channel filepath = Inl e"
  shows "e = IndexError"
  using bad
  by (auto simp: files_to_remove_def Let_def andThen_eq_Inl
        name_from_binstar_filename_def version_from_binstar_filename_def
        configuration_from_binstar_filename_def
      dest!: comprehension_error
      dest: item_error all_info_error name_error superseded_error)

lemma files_to_remove_unreadable:
  assumes "\<not> readable p_split filepath (binstar_files_on_channel b user channel)"
  shows "files_to_remove p_split b user channel filepath = Inl IndexError"
proof (cases "files_to_remove p_split b user channel filepath")
  case (Inl e)
  then show ?thesis using files_to_remove_error [OF Inl] by simp
next
  case (Inr r)
  then show ?thesis using files_to_remove_Inr_readable [OF Inr] assms by simp
qed

section \<open>Facts about the version from git\<close>

lemma of_char_V: "(of_char c :: nat) = 86 \<longleftrightarrow> c = CHR ''V''"
proof -
  have "(of_char CHR ''V'' :: nat) = 86" by simp
  then show ?thesis by (metis of_char_eq_iff)
qed

lemma lower_v: "lower c = CHR ''v'' \<longleftrightarrow> c = CHR ''v'' \<or> c = CHR ''V''"
proof (cases "65 \<le> (of_char c :: nat) \<and> (of_char c :: nat) \<le> 90")
  case True
  then have l: "lower c = char_of (of_char c + 32 :: nat)" by (simp add: lower_def Let_def)
  have "(char_of (of_char c + 32 :: nat) = CHR ''v'') \<longleftrightarrow> (of_char c + 32 :: nat) mod 256 = 118"
    by (simp add: char_of_eq_iff take_bit_eq_mod)
  also have "\<dots> \<longleftrightarrow> (of_char c :: nat) = 86" using True by auto
  finally have "lower c = CHR ''v'' \<longleftrightarrow> c = CHR ''V''" using l of_char_V by simp
  moreover have "c \<noteq> CHR ''v''" using True by auto
  ultimately show ?thesis by simp
next
  case False
  then have "lower c = c" by (auto simp add: lower_def Let_def)
  moreover have "c \<noteq> CHR ''V''" using False by auto
  ultimately show ?thesis by auto
qed

lemma version_from_git_tags_nonempty:
  assumes ne: "str_strip out \<noteq> []"
    and dec: "major = 3 \<longrightarrow> utf8 (str_strip out)"
  shows "version_from_git_tags major (0, out) =
     (case str_split CHR ''-'' (strip_v (str_strip out)) of
        [v, n, sha] \<Rightarrow> Inr ([], v @ ''+'' @ n @ ''.'' @ sha)
      | _ \<Rightarrow> Inr ([git_warning], strip_v (str_strip out)))"
proof -
  from ne obtain c cs where raw: "str_strip out = c # cs" by (cases "str_strip out") auto
  then have c0: "item (str_strip out) 0 = Inr c" by (simp add: item_def)
  have d: "(if major = 3 then decode_utf8 (str_strip out) else Inr (str_strip out)) =
           Inr (str_strip out)"
    using dec by (simp add: decode_utf8_def)
  have sv: "(if lower c = CHR ''v'' then drop 1 (str_strip out) else str_strip out) =
            strip_v (str_strip out)"
    using raw by (simp add: strip_v_def lower_v)
  show ?thesis
    unfolding version_from_git_tags_def Let_def prod.case d andThen_Inr c0 sv by simp
qed

section \<open>The classifiers\<close>

text \<open>
  C8. None of the classifiers raises, whatever the string: \<^verbatim>\<open>is_tag\<close> only tests
  whether \<open>+\<close> occurs, and \<^verbatim>\<open>split\<close> never returns an empty list, so the indices
  \<open>0\<close> and \<open>-1\<close> of the other three are always in range and each of them returns a
  boolean. This covers the empty string and strings with neither \<open>+\<close> nor a dot.
\<close>

theorem classifiers_never_raise:
  "is_tag v = (CHR ''+'' \<notin> set v) \<and>
   (\<exists>d. is_dev_tag v = Inr d) \<and>
   (\<exists>r. is_rc_tag v = Inr r) \<and>
   (\<exists>t. is_release_tag v = Inr t)"
  by (simp add: is_tag_iff is_dev_tag_eq is_rc_tag_eq is_release_tag_eq)

theorem classifiers_never_raise_witness:
  "is_tag [] \<and> is_dev_tag [] = Inr False \<and> is_rc_tag [] = Inr False \<and>
   is_release_tag [] = Inr True \<and>
   is_tag ''abc'' \<and> is_dev_tag ''abc'' = Inr False \<and> is_rc_tag ''abc'' = Inr False \<and>
   is_release_tag ''abc'' = Inr True"
  using classifiers_never_raise [of "[]"] classifiers_never_raise [of "''abc''"]
  by (simp add: is_release_tag_def is_tag_def is_rc_tag_def is_dev_tag_def item_def andThen_def)

text \<open>
  C2. \<^verbatim>\<open>is_tag(v)\<close> holds exactly when \<open>v\<close> has no \<open>+\<close>; \<^verbatim>\<open>is_rc_tag(v)\<close> exactly
  when \<open>rc\<close> occurs in the part of \<open>v\<close> before the first \<open>+\<close>; \<^verbatim>\<open>is_dev_tag(v)\<close>
  exactly when the part of \<open>v\<close> after the last dot starts with \<open>dev\<close>; and
  \<^verbatim>\<open>is_release_tag(v)\<close> exactly when \<open>v\<close> is a tag and neither of the two. So
  \<open>1.2.0\<close> is a release tag, and \<open>1.2.0rc1\<close>, \<open>1.2.0.dev3\<close> and \<open>1.2.0+5.abcdef\<close> are
  not.
\<close>

theorem release_tag_classification:
  "is_tag v = (CHR ''+'' \<notin> set v) \<and>
   is_rc_tag v = Inr (sublist ''rc'' (takeWhile (\<lambda>c. c \<noteq> CHR ''+'') v)) \<and>
   is_dev_tag v = Inr (prefix ''dev'' (rev (takeWhile (\<lambda>c. c \<noteq> CHR ''.'') (rev v)))) \<and>
   is_release_tag v =
     Inr (is_tag v \<and> \<not> sublist ''rc'' (takeWhile (\<lambda>c. c \<noteq> CHR ''+'') v)
                   \<and> \<not> prefix ''dev'' (rev (takeWhile (\<lambda>c. c \<noteq> CHR ''.'') (rev v)))) \<and>
   is_release_tag ''1.2.0'' = Inr True \<and>
   is_release_tag ''1.2.0rc1'' = Inr False \<and>
   is_release_tag ''1.2.0.dev3'' = Inr False \<and>
   is_release_tag ''1.2.0+5.abcdef'' = Inr False"
proof -
  have "is_release_tag ''1.2.0'' = Inr True"
    by (simp add: is_release_tag_def is_tag_def is_rc_tag_def is_dev_tag_def item_def andThen_def)
  moreover have "is_release_tag ''1.2.0rc1'' = Inr False"
    by (simp add: is_release_tag_def is_tag_def is_rc_tag_def is_dev_tag_def item_def andThen_def)
  moreover have "is_release_tag ''1.2.0.dev3'' = Inr False"
    by (simp add: is_release_tag_def is_tag_def is_rc_tag_def is_dev_tag_def item_def andThen_def)
  moreover have "is_release_tag ''1.2.0+5.abcdef'' = Inr False"
    by (simp add: is_release_tag_def is_tag_def)
  ultimately show ?thesis
    using is_tag_iff [of v] is_rc_tag_eq [of v] is_dev_tag_eq [of v] is_release_tag_eq [of v]
    by simp
qed

theorem release_tag_classification_witness:
  "is_tag ''1.2.0rc1'' \<and> is_rc_tag ''1.2.0rc1'' = Inr True \<and>
   is_dev_tag ''1.2.0rc1'' = Inr False \<and> is_release_tag ''1.2.0rc1'' = Inr False"
  using release_tag_classification [of "''1.2.0rc1''"]
  by (simp add: is_rc_tag_def is_dev_tag_def item_def andThen_def)

text \<open>
  C3. \<^verbatim>\<open>same_version_different_build(v1, v2)\<close>, the same-release-line test, holds
  exactly when \<open>v2\<close> starts with the part of \<open>v1\<close> before the first \<open>+\<close>. It holds
  for \<open>1.2.0\<close> and \<open>1.2.0+5.abcdef\<close>, and fails for \<open>1.2.0\<close> and \<open>1.3.0+1.abc\<close>.
\<close>

theorem same_release_line_prefix:
  "same_version_different_build v1 v2 =
     Inr (prefix (takeWhile (\<lambda>c. c \<noteq> CHR ''+'') v1) v2) \<and>
   same_version_different_build ''1.2.0'' ''1.2.0+5.abcdef'' = Inr True \<and>
   same_version_different_build ''1.2.0'' ''1.3.0+1.abc'' = Inr False"
proof -
  have "same_version_different_build ''1.2.0'' ''1.2.0+5.abcdef'' = Inr True"
    by (simp add: same_version_different_build_def item_def andThen_def)
  moreover have "same_version_different_build ''1.2.0'' ''1.3.0+1.abc'' = Inr False"
    by (simp add: same_version_different_build_def item_def andThen_def)
  ultimately show ?thesis
    using same_version_different_build_eq [of v1 v2] by simp
qed

theorem same_release_line_prefix_witness:
  "same_version_different_build ''1.3.0+2.def'' ''1.3.0+1.ccc'' = Inr True \<and>
   prefix ''1.3.0'' ''1.3.0+1.ccc''"
  using same_release_line_prefix [of "''1.3.0+2.def''" "''1.3.0+1.ccc''"]
  by simp

section \<open>Reading the fields of a hosted identifier\<close>

text \<open>
  C4, as the claim states it, fails: five segments are not enough for the configuration,
  which also needs three tokens between dashes in segment 4. The identifier \<open>a/b/c/d/e\<close>
  has five segments, and reading its configuration raises IndexError.
\<close>

theorem configuration_needs_three_tokens:
  "length (str_split CHR ''/'' ''a/b/c/d/e'') = 5 \<and>
   BinstarFile_user (BinstarFile ''a/b/c/d/e'') = Inr ''a'' \<and>
   BinstarFile_platform (BinstarFile ''a/b/c/d/e'') = Inr ''d'' \<and>
   BinstarFile_configuration (BinstarFile ''a/b/c/d/e'') = Inl IndexError"
  by (simp add: BinstarFile_user_def BinstarFile_platform_def BinstarFile_configuration_def
        str_replace_def item_def)

text \<open>
  C4, amended. For every hosted identifier with at least five segments between slashes
  whose segment 4, counted after the backslashes are turned into slashes, has at least
  three tokens between dashes: user, name and version are segments 0, 1 and 2; platform is
  segment 3 of the identifier with its backslashes turned into slashes; configuration is
  the third token of that identifier's segment 4, cut at its first dot. The identifier
  \<open>acme/widget/1.2.0+5.abc/linux-64/widget-1.2.0+5.abc-py27.tar.bz2\<close> yields \<open>acme\<close>,
  \<open>widget\<close>, \<open>1.2.0+5.abc\<close>, \<open>linux-64\<close> and \<open>py27\<close>.
\<close>

theorem hosted_identifier_fields:
  assumes five: "5 \<le> length (str_split CHR ''/'' fn)"
    and three: "3 \<le> length (str_split CHR ''-''
                     (str_split CHR ''/'' (str_replace (CHR 0x5C) CHR ''/'' fn) ! 4))"
  shows "BinstarFile_user (BinstarFile fn) = Inr (str_split CHR ''/'' fn ! 0) \<and>
         BinstarFile_name (BinstarFile fn) = Inr (str_split CHR ''/'' fn ! 1) \<and>
         BinstarFile_version (BinstarFile fn) = Inr (str_split CHR ''/'' fn ! 2) \<and>
         BinstarFile_platform (BinstarFile fn) =
           Inr (str_split CHR ''/'' (str_replace (CHR 0x5C) CHR ''/'' fn) ! 3) \<and>
         BinstarFile_configuration (BinstarFile fn) =
           Inr (takeWhile (\<lambda>c. c \<noteq> CHR ''.'')
                  (str_split CHR ''-''
                     (str_split CHR ''/'' (str_replace (CHR 0x5C) CHR ''/'' fn) ! 4) ! 2)) \<and>
         BinstarFile_user (BinstarFile
           ''acme/widget/1.2.0+5.abc/linux-64/widget-1.2.0+5.abc-py27.tar.bz2'') = Inr ''acme'' \<and>
         BinstarFile_name (BinstarFile
           ''acme/widget/1.2.0+5.abc/linux-64/widget-1.2.0+5.abc-py27.tar.bz2'') = Inr ''widget'' \<and>
         BinstarFile_version (BinstarFile
           ''acme/widget/1.2.0+5.abc/linux-64/widget-1.2.0+5.abc-py27.tar.bz2'') =
             Inr ''1.2.0+5.abc'' \<and>
         BinstarFile_platform (BinstarFile
           ''acme/widget/1.2.0+5.abc/linux-64/widget-1.2.0+5.abc-py27.tar.bz2'') =
             Inr ''linux-64'' \<and>
         BinstarFile_configuration (BinstarFile
           ''acme/widget/1.2.0+5.abc/linux-64/widget-1.2.0+5.abc-py27.tar.bz2'') = Inr ''py27''"
proof -
  let ?n = "str_split CHR ''/'' (str_replace (CHR 0x5C) CHR ''/'' fn)"
  let ?ex = "BinstarFile ''acme/widget/1.2.0+5.abc/linux-64/widget-1.2.0+5.abc-py27.tar.bz2''"
  have n5: "5 \<le> length ?n"
    using five length_str_split_replace [of "CHR ''/''" fn "CHR 0x5C"] by linarith
  have u: "BinstarFile_user (BinstarFile fn) = Inr (str_split CHR ''/'' fn ! 0)"
    by (simp add: BinstarFile_user_def item_nonneg str_split_not_Nil)
  have n: "BinstarFile_name (BinstarFile fn) = Inr (str_split CHR ''/'' fn ! 1)"
    using five by (simp add: BinstarFile_name_def item_nonneg)
  have v: "BinstarFile_version (BinstarFile fn) = Inr (str_split CHR ''/'' fn ! 2)"
    using five by (simp add: BinstarFile_version_def item_nonneg)
  have p: "BinstarFile_platform (BinstarFile fn) = Inr (?n ! 3)"
    using n5 by (simp add: BinstarFile_platform_def item_nonneg)
  have c: "BinstarFile_configuration (BinstarFile fn) =
           Inr (takeWhile (\<lambda>c. c \<noteq> CHR ''.'') (str_split CHR ''-'' (?n ! 4) ! 2))"
    using n5 three
    by (simp add: BinstarFile_configuration_def item_nonneg item_split_0)
  have eu: "BinstarFile_user ?ex = Inr ''acme''"
    by (simp add: BinstarFile_user_def item_def)
  have en: "BinstarFile_name ?ex = Inr ''widget''"
    by (simp add: BinstarFile_name_def item_def)
  have ev: "BinstarFile_version ?ex = Inr ''1.2.0+5.abc''"
    by (simp add: BinstarFile_version_def item_def)
  have ep: "BinstarFile_platform ?ex = Inr ''linux-64''"
    by (simp add: BinstarFile_platform_def str_replace_def item_def)
  have ec: "BinstarFile_configuration ?ex = Inr ''py27''"
    by (simp add: BinstarFile_configuration_def str_replace_def item_def)
  from u n v p c eu en ev ep ec show ?thesis by simp
qed

theorem hosted_identifier_fields_witness:
  "5 \<le> length (str_split CHR ''/'' ''acme/my-pkg/1.0/win-32/my-pkg-1.0-py34_0.tar.bz2'') \<and>
   3 \<le> length (str_split CHR ''-'' ''my-pkg-1.0-py34_0.tar.bz2'') \<and>
   BinstarFile_name (BinstarFile ''acme/my-pkg/1.0/win-32/my-pkg-1.0-py34_0.tar.bz2'') =
     Inr ''my-pkg'' \<and>
   BinstarFile_platform (BinstarFile ''acme/my-pkg/1.0/win-32/my-pkg-1.0-py34_0.tar.bz2'') =
     Inr ''win-32'' \<and>
   BinstarFile_configuration (BinstarFile ''acme/my-pkg/1.0/win-32/my-pkg-1.0-py34_0.tar.bz2'') =
     Inr ''1''"
proof -
  have five: "5 \<le> length (str_split CHR ''/''
                 ''acme/my-pkg/1.0/win-32/my-pkg-1.0-py34_0.tar.bz2'')"
    by simp
  have three: "3 \<le> length (str_split CHR ''-''
                 (str_split CHR ''/'' (str_replace (CHR 0x5C) CHR ''/''
                    ''acme/my-pkg/1.0/win-32/my-pkg-1.0-py34_0.tar.bz2'') ! 4))"
    by (simp add: str_replace_def)
  show ?thesis
    using hosted_identifier_fields [OF five three] by (simp add: str_replace_def)
qed

text \<open>
  C6, as the claim states it, fails: the constructor accepts any string, the fields are
  read one by one, and no error of the script is called MalformedIdentifier. For
  \<open>acme/widget\<close>, with two segments, user and name are read without an error and
  version raises IndexError.
\<close>

theorem two_segments_user_and_name_read:
  "length (str_split CHR ''/'' ''acme/widget'') = 2 \<and>
   BinstarFile_user (BinstarFile ''acme/widget'') = Inr ''acme'' \<and>
   BinstarFile_name (BinstarFile ''acme/widget'') = Inr ''widget'' \<and>
   BinstarFile_version (BinstarFile ''acme/widget'') = Inl IndexError"
  by (simp add: BinstarFile_user_def BinstarFile_name_def BinstarFile_version_def item_def)

text \<open>
  C6, amended. For every string with fewer than three segments between slashes, the
  record is constructed, user is the text before the first slash, basename is empty,
  reading version raises IndexError, and so does \<^verbatim>\<open>all_info\<close>, which reads every field;
  when the string has no backslash, reading platform and configuration raises IndexError
  too.
\<close>

theorem short_identifier_fields:
  assumes short: "length (str_split CHR ''/'' fn) < 3"
  shows "full_name (BinstarFile fn) = fn \<and>
         BinstarFile_user (BinstarFile fn) = Inr (takeWhile (\<lambda>c. c \<noteq> CHR ''/'') fn) \<and>
         BinstarFile_basename (BinstarFile fn) = [] \<and>
         BinstarFile_version (BinstarFile fn) = Inl IndexError \<and>
         all_info (BinstarFile fn) = Inl IndexError \<and>
         (CHR 0x5C \<notin> set fn \<longrightarrow>
            BinstarFile_platform (BinstarFile fn) = Inl IndexError \<and>
            BinstarFile_configuration (BinstarFile fn) = Inl IndexError)"
proof -
  have v: "BinstarFile_version (BinstarFile fn) = Inl IndexError"
    using short by (simp add: BinstarFile_version_def item_nonneg)
  have b: "BinstarFile_basename (BinstarFile fn) = []"
    using short by (simp add: BinstarFile_basename_def)
  have a: "all_info (BinstarFile fn) = Inl IndexError"
  proof (cases "BinstarFile_name (BinstarFile fn)")
    case (Inl e)
    then have "e = IndexError"
      by (auto simp: BinstarFile_name_def item_nonneg split: if_splits)
    with Inl show ?thesis by (simp add: all_info_def BinstarFile_user_eq)
  next
    case (Inr n)
    then show ?thesis by (simp add: all_info_def BinstarFile_user_eq v)
  qed
  have pc: "BinstarFile_platform (BinstarFile fn) = Inl IndexError \<and>
            BinstarFile_configuration (BinstarFile fn) = Inl IndexError"
    if "CHR 0x5C \<notin> set fn"
    using short that
    by (simp add: BinstarFile_platform_def BinstarFile_configuration_def
          str_replace_absent item_nonneg)
  from v b a pc show ?thesis by (simp add: BinstarFile_user_eq)
qed

theorem short_identifier_fields_witness:
  "length (str_split CHR ''/'' ''acme/widget'') < 3 \<and>
   CHR 0x5C \<notin> set ''acme/widget'' \<and>
   BinstarFile_user (BinstarFile ''acme/widget'') = Inr ''acme'' \<and>
   BinstarFile_version (BinstarFile ''acme/widget'') = Inl IndexError \<and>
   all_info (BinstarFile ''acme/widget'') = Inl IndexError \<and>
   BinstarFile_platform (BinstarFile ''acme/widget'') = Inl IndexError \<and>
   BinstarFile_configuration (BinstarFile ''acme/widget'') = Inl IndexError"
proof -
  have short: "length (str_split CHR ''/'' ''acme/widget'') < 3"
    by simp
  show ?thesis
    using short short_identifier_fields [OF short] by simp
qed

section \<open>Retention\<close>

text \<open>
  C1, as the claim states it, fails: \<^verbatim>\<open>files_to_remove\<close> does not return for every hosted
  set. With a hosted source distribution of the same name, \<open>acme/widget/1.3.0/widget-1.3.0.tar.gz\<close>,
  which has four segments, the candidate \<open>widget-1.3.0+1.ccc-py27\<close> is not returned:
  reading the configuration of the four-segment record raises IndexError.
\<close>

theorem files_to_remove_raises_on_short_record:
  "files_to_remove posixpath_split
     (service_listing
        [''acme/widget/1.3.0+1.ccc/linux-64/widget-1.3.0+1.ccc-py27.tar.bz2'',
         ''acme/widget/1.3.0/widget-1.3.0.tar.gz''])
     ''acme'' ''master'' ''/conda-bld/linux-64/widget-1.3.0+2.def-py27.tar.bz2'' =
   Inl IndexError"
  by code_simp

text \<open>
  C1, amended. Whatever the split of the host, \<^verbatim>\<open>posixpath.split\<close> or \<^verbatim>\<open>ntpath.split\<close>
  or any other: when the file name of the new artifact has at least two tokens between
  dashes, every hosted record has at least two segments between slashes, and every hosted
  record with the name of the new artifact has all its fields, \<^verbatim>\<open>files_to_remove\<close>
  returns exactly the hosted records, in their hosted order, that have the name, the
  configuration and the platform of the new artifact, a version different from its
  version, a version that is not a release tag, and a version on the release line of the
  new version; otherwise it raises IndexError. On the example of the specification the
  result is exactly \<open>widget-1.3.0+1.ccc-py27\<close> on \<open>linux-64\<close>, and on Windows, for the build
  path \<^verbatim>\<open>C:\Miniconda\conda-bld\win-64\widget-1.3.0+2.def-py27.tar.bz2\<close>, it is exactly
  \<open>widget-1.3.0+1.ccc-py27\<close> on \<open>win-64\<close>.
\<close>

theorem files_to_remove_returns_candidates:
  "files_to_remove p_split b user channel filepath =
     (if readable p_split filepath (binstar_files_on_channel b user channel)
      then Inr (filter (removal_candidate p_split filepath)
                  (binstar_files_on_channel b user channel))
      else Inl IndexError) \<and>
   files_to_remove posixpath_split
     (service_listing
        [''acme/widget/1.2.0+9.aaa/linux-64/widget-1.2.0+9.aaa-py27.tar.bz2'',
         ''acme/widget/1.3.0+1.ccc/linux-64/widget-1.3.0+1.ccc-py27.tar.bz2'',
         ''acme/widget/1.3.0+1.ccc/linux-64/widget-1.3.0+1.ccc-py36.tar.bz2'',
         ''acme/widget/1.3.0/linux-64/widget-1.3.0-py27.tar.bz2''])
     ''acme'' ''master'' ''/conda-bld/linux-64/widget-1.3.0+2.def-py27.tar.bz2'' =
   Inr [BinstarFile ''acme/widget/1.3.0+1.ccc/linux-64/widget-1.3.0+1.ccc-py27.tar.bz2''] \<and>
   files_to_remove ntpath_split
     (service_listing
        [''acme/widget/1.3.0+1.ccc/linux-64/widget-1.3.0+1.ccc-py27.tar.bz2'',
         ''acme/widget/1.3.0+1.ccc/win-64/widget-1.3.0+1.ccc-py27.tar.bz2'',
         ''acme/widget/1.3.0/win-64/widget-1.3.0-py27.tar.bz2''])
     ''acme'' ''master'' windows_build_path =
   Inr [BinstarFile ''acme/widget/1.3.0+1.ccc/win-64/widget-1.3.0+1.ccc-py27.tar.bz2'']"
proof -
  have general: "files_to_remove p_split b user channel filepath =
     (if readable p_split filepath (binstar_files_on_channel b user channel)
      then Inr (filter (removal_candidate p_split filepath)
                  (binstar_files_on_channel b user channel))
      else Inl IndexError)"
    by (simp add: files_to_remove_readable files_to_remove_unreadable)
  have example: "files_to_remove posixpath_split
     (service_listing
        [''acme/widget/1.2.0+9.aaa/linux-64/widget-1.2.0+9.aaa-py27.tar.bz2'',
         ''acme/widget/1.3.0+1.ccc/linux-64/widget-1.3.0+1.ccc-py27.tar.bz2'',
         ''acme/widget/1.3.0+1.ccc/linux-64/widget-1.3.0+1.ccc-py36.tar.bz2'',
         ''acme/widget/1.3.0/linux-64/widget-1.3.0-py27.tar.bz2''])
     ''acme'' ''master'' ''/conda-bld/linux-64/widget-1.3.0+2.def-py27.tar.bz2'' =
   Inr [BinstarFile ''acme/widget/1.3.0+1.ccc/linux-64/widget-1.3.0+1.ccc-py27.tar.bz2'']"
    by code_simp
  have windows: "files_to_remove ntpath_split
     (service_listing
        [''acme/widget/1.3.0+1.ccc/linux-64/widget-1.3.0+1.ccc-py27.tar.bz2'',
         ''acme/widget/1.3.0+1.ccc/win-64/widget-1.3.0+1.ccc-py27.tar.bz2'',
         ''acme/widget/1.3.0/win-64/widget-1.3.0-py27.tar.bz2''])
     ''acme'' ''master'' windows_build_path =
   Inr [BinstarFile ''acme/widget/1.3.0+1.ccc/win-64/widget-1.3.0+1.ccc-py27.tar.bz2'']"
    by code_simp
  from general example windows show ?thesis by (intro conjI)
qed

theorem files_to_remove_returns_candidates_witness:
  "readable posixpath_split ''/conda-bld/linux-64/widget-1.3.0+2.def-py27.tar.bz2''
     (binstar_files_on_channel
        (service_listing
           [''acme/widget/1.3.0+1.ccc/linux-64/widget-1.3.0+1.ccc-py27.tar.bz2'',
            ''acme/widget/1.3.0+1.ccc/osx-64/widget-1.3.0+1.ccc-py27.tar.bz2'',
            ''acme/other'',
            ''acme/widget/1.3.0rc1/linux-64/widget-1.3.0rc1-py27.tar.bz2''])
        ''acme'' ''master'') \<and>
   files_to_remove posixpath_split
     (service_listing
        [''acme/widget/1.3.0+1.ccc/linux-64/widget-1.3.0+1.ccc-py27.tar.bz2'',
         ''acme/widget/1.3.0+1.ccc/osx-64/widget-1.3.0+1.ccc-py27.tar.bz2'',
         ''acme/other'',
         ''acme/widget/1.3.0rc1/linux-64/widget-1.3.0rc1-py27.tar.bz2''])
     ''acme'' ''master'' ''/conda-bld/linux-64/widget-1.3.0+2.def-py27.tar.bz2'' =
   Inr [BinstarFile ''acme/widget/1.3.0+1.ccc/linux-64/widget-1.3.0+1.ccc-py27.tar.bz2'',
        BinstarFile ''acme/widget/1.3.0rc1/linux-64/widget-1.3.0rc1-py27.tar.bz2''] \<and>
   platform_from_binstar_filepath ntpath_split windows_build_path = ''win-64'' \<and>
   new_filename ntpath_split windows_build_path = ''widget-1.3.0+2.def-py27.tar.bz2'' \<and>
   readable ntpath_split windows_build_path
     (binstar_files_on_channel
        (service_listing
           [''acme/widget/1.3.0+1.ccc/win-64'' @ [CHR 0x5C] @ ''widget-1.3.0+1.ccc-py27.tar.bz2'',
            ''acme/widget/1.3.0+1.ccc/linux-64/widget-1.3.0+1.ccc-py27.tar.bz2''])
        ''acme'' ''master'') \<and>
   files_to_remove ntpath_split
     (service_listing
        [''acme/widget/1.3.0+1.ccc/win-64'' @ [CHR 0x5C] @ ''widget-1.3.0+1.ccc-py27.tar.bz2'',
         ''acme/widget/1.3.0+1.ccc/linux-64/widget-1.3.0+1.ccc-py27.tar.bz2''])
     ''acme'' ''master'' windows_build_path =
   Inr [BinstarFile
          (''acme/widget/1.3.0+1.ccc/win-64'' @ [CHR 0x5C] @ ''widget-1.3.0+1.ccc-py27.tar.bz2'')]"
proof -
  let ?b = "service_listing
           [''acme/widget/1.3.0+1.ccc/linux-64/widget-1.3.0+1.ccc-py27.tar.bz2'',
            ''acme/widget/1.3.0+1.ccc/osx-64/widget-1.3.0+1.ccc-py27.tar.bz2'',
            ''acme/other'',
            ''acme/widget/1.3.0rc1/linux-64/widget-1.3.0rc1-py27.tar.bz2'']"
  let ?fp = "''/conda-bld/linux-64/widget-1.3.0+2.def-py27.tar.bz2''"
  let ?w = "service_listing
        [''acme/widget/1.3.0+1.ccc/win-64'' @ [CHR 0x5C] @ ''widget-1.3.0+1.ccc-py27.tar.bz2'',
         ''acme/widget/1.3.0+1.ccc/linux-64/widget-1.3.0+1.ccc-py27.tar.bz2'']"
  have r: "readable posixpath_split ?fp (binstar_files_on_channel ?b ''acme'' ''master'')"
    by code_simp
  have f: "filter (removal_candidate posixpath_split ?fp)
             (binstar_files_on_channel ?b ''acme'' ''master'') =
           [BinstarFile ''acme/widget/1.3.0+1.ccc/linux-64/widget-1.3.0+1.ccc-py27.tar.bz2'',
            BinstarFile ''acme/widget/1.3.0rc1/linux-64/widget-1.3.0rc1-py27.tar.bz2'']"
    by code_simp
  have pl: "platform_from_binstar_filepath ntpath_split windows_build_path = ''win-64''"
    by code_simp
  have fnm: "new_filename ntpath_split windows_build_path = ''widget-1.3.0+2.def-py27.tar.bz2''"
    by code_simp
  have rw: "readable ntpath_split windows_build_path
              (binstar_files_on_channel ?w ''acme'' ''master'')"
    by code_simp
  have fw: "filter (removal_candidate ntpath_split windows_build_path)
              (binstar_files_on_channel ?w ''acme'' ''master'') =
            [BinstarFile
               (''acme/widget/1.3.0+1.ccc/win-64'' @ [CHR 0x5C] @
                ''widget-1.3.0+1.ccc-py27.tar.bz2'')]"
    by code_simp
  from files_to_remove_returns_candidates [of posixpath_split ?b "''acme''" "''master''" ?fp]
  have posix: "files_to_remove posixpath_split ?b ''acme'' ''master'' ?fp =
        (if readable posixpath_split ?fp (binstar_files_on_channel ?b ''acme'' ''master'')
         then Inr (filter (removal_candidate posixpath_split ?fp)
                     (binstar_files_on_channel ?b ''acme'' ''master''))
         else Inl IndexError)"
    by (rule conjunct1)
  from files_to_remove_returns_candidates
         [of ntpath_split ?w "''acme''" "''master''" windows_build_path]
  have nt: "files_to_remove ntpath_split ?w ''acme'' ''master'' windows_build_path =
        (if readable ntpath_split windows_build_path
              (binstar_files_on_channel ?w ''acme'' ''master'')
         then Inr (filter (removal_candidate ntpath_split windows_build_path)
                     (binstar_files_on_channel ?w ''acme'' ''master''))
         else Inl IndexError)"
    by (rule conjunct1)
  from posix nt r f pl fnm rw fw show ?thesis by simp
qed

text \<open>
  C9. The same-release-line test is reflexive: every version starts with its own part
  before the first \<open>+\<close>. So, for a hosted record whose version is the version of the new
  artifact, the last condition of the filter holds, and the record is kept out by the
  inequality of the versions alone: the filter is never true of it, and no record that
  \<^verbatim>\<open>files_to_remove\<close> returns has the version of the new artifact.
\<close>

theorem same_release_line_reflexive:
  "same_version_different_build v v = Inr True \<and>
   (BinstarFile_version f = Inr version \<longrightarrow>
      superseded name configuration platform version f \<noteq> Inr True \<and>
      andThen (BinstarFile_version f) (same_version_different_build version) = Inr True) \<and>
   (files_to_remove p_split b user channel filepath = Inr r \<longrightarrow>
      (\<forall>g \<in> set r. BinstarFile_version g \<noteq> Inr (new_version p_split filepath)))"
proof -
  have refl: "same_version_different_build w w = Inr True" for w
    by (simp add: same_version_different_build_eq takeWhile_is_prefix)
  have out: "superseded name configuration platform version f \<noteq> Inr True"
    if "BinstarFile_version f = Inr version"
    using that by (auto simp: superseded_def py_and_def split: sum.splits if_splits)
  have res: "\<forall>g \<in> set r. BinstarFile_version g \<noteq> Inr (new_version p_split filepath)"
    if ok: "files_to_remove p_split b user channel filepath = Inr r"
  proof -
    from files_to_remove_Inr_readable [OF ok] files_to_remove_readable [of p_split filepath b user channel] ok
    have "r = filter (removal_candidate p_split filepath) (binstar_files_on_channel b user channel)"
      by simp
    then show ?thesis
      by (auto simp: removal_candidate_def)
  qed
  from refl out res show ?thesis by simp
qed

theorem same_release_line_reflexive_witness:
  "BinstarFile_version
     (BinstarFile ''acme/widget/1.3.0+2.def/linux-64/widget-1.3.0+2.def-py27.tar.bz2'') =
     Inr ''1.3.0+2.def'' \<and>
   same_version_different_build ''1.3.0+2.def'' ''1.3.0+2.def'' = Inr True \<and>
   superseded ''widget'' ''py27'' ''linux-64'' ''1.3.0+2.def''
     (BinstarFile ''acme/widget/1.3.0+2.def/linux-64/widget-1.3.0+2.def-py27.tar.bz2'') =
     Inr False \<and>
   files_to_remove posixpath_split
     (service_listing
        [''acme/widget/1.3.0+2.def/linux-64/widget-1.3.0+2.def-py27.tar.bz2'',
         ''acme/widget/1.3.0+1.ccc/linux-64/widget-1.3.0+1.ccc-py27.tar.bz2''])
     ''acme'' ''master'' ''/conda-bld/linux-64/widget-1.3.0+2.def-py27.tar.bz2'' =
   Inr [BinstarFile ''acme/widget/1.3.0+1.ccc/linux-64/widget-1.3.0+1.ccc-py27.tar.bz2''] \<and>
   BinstarFile_version
     (BinstarFile ''acme/widget/1.3.0+1.ccc/linux-64/widget-1.3.0+1.ccc-py27.tar.bz2'') \<noteq>
     Inr (new_version posixpath_split ''/conda-bld/linux-64/widget-1.3.0+2.def-py27.tar.bz2'')"
proof -
  let ?same = "BinstarFile ''acme/widget/1.3.0+2.def/linux-64/widget-1.3.0+2.def-py27.tar.bz2''"
  let ?old = "BinstarFile ''acme/widget/1.3.0+1.ccc/linux-64/widget-1.3.0+1.ccc-py27.tar.bz2''"
  let ?b = "service_listing
        [''acme/widget/1.3.0+2.def/linux-64/widget-1.3.0+2.def-py27.tar.bz2'',
         ''acme/widget/1.3.0+1.ccc/linux-64/widget-1.3.0+1.ccc-py27.tar.bz2'']"
  let ?fp = "''/conda-bld/linux-64/widget-1.3.0+2.def-py27.tar.bz2''"
  have v: "BinstarFile_version ?same = Inr ''1.3.0+2.def''"
    by code_simp
  have s: "superseded ''widget'' ''py27'' ''linux-64'' ''1.3.0+2.def'' ?same = Inr False"
    by code_simp
  have r: "files_to_remove posixpath_split ?b ''acme'' ''master'' ?fp = Inr [?old]"
    by code_simp
  from same_release_line_reflexive
         [of "''1.3.0+2.def''" ?same "''1.3.0+2.def''" "''widget''" "''py27''" "''linux-64''"
             posixpath_split ?b "''acme''" "''master''" ?fp "[?old]"]
       v s r
  show ?thesis by simp
qed

text \<open>
  C10. When segment 4 of a hosted identifier, counted after its backslashes are turned
  into slashes, is a file name of exactly three tokens between dashes, the configuration
  read from the hosted identifier (third token, cut at its first dot) is the
  configuration read from the file name alone (last token, cut at its first dot). With
  four tokens the two differ on \<open>my-pkg-1.0-py27.tar.bz2\<close>: \<open>1\<close> against \<open>py27\<close>. And the
  records that \<^verbatim>\<open>files_to_remove\<close> returns are hosted records whose third token equals the
  last token of the new file name.
\<close>

theorem configuration_extractors_agree_on_three_tokens:
  "(item (str_split CHR ''/'' (str_replace (CHR 0x5C) CHR ''/'' full)) 4 = Inr fn \<and>
    length (str_split CHR ''-'' fn) = 3 \<longrightarrow>
      BinstarFile_configuration (BinstarFile full) = configuration_from_binstar_filename fn \<and>
      configuration_from_binstar_filename fn =
        Inr (takeWhile (\<lambda>c. c \<noteq> CHR ''.'') (str_split CHR ''-'' fn ! 2))) \<and>
   (4 \<le> length (str_split CHR ''-'' ''my-pkg-1.0-py27.tar.bz2'') \<and>
    BinstarFile_configuration
      (BinstarFile ''acme/my-pkg/1.0/linux-64/my-pkg-1.0-py27.tar.bz2'') = Inr ''1'' \<and>
    configuration_from_binstar_filename ''my-pkg-1.0-py27.tar.bz2'' = Inr ''py27'') \<and>
   (files_to_remove p_split b user channel filepath = Inr r \<longrightarrow>
      (\<forall>g \<in> set r.
         BinstarFile_configuration g =
           configuration_from_binstar_filename (snd (p_split filepath))))"
proof -
  have agree: "BinstarFile_configuration (BinstarFile full) = configuration_from_binstar_filename fn \<and>
      configuration_from_binstar_filename fn =
        Inr (takeWhile (\<lambda>c. c \<noteq> CHR ''.'') (str_split CHR ''-'' fn ! 2))"
    if seg: "item (str_split CHR ''/'' (str_replace (CHR 0x5C) CHR ''/'' full)) 4 = Inr fn"
      and three: "length (str_split CHR ''-'' fn) = 3"
  proof -
    from three have third: "item (str_split CHR ''-'' fn) 2 = Inr (str_split CHR ''-'' fn ! 2)"
      by (simp add: item_nonneg)
    from three have "last (str_split CHR ''-'' fn) = str_split CHR ''-'' fn ! 2"
      by (simp add: last_conv_nth str_split_not_Nil)
    then have lst: "item (str_split CHR ''-'' fn) (- 1) = Inr (str_split CHR ''-'' fn ! 2)"
      by (simp add: item_last str_split_not_Nil)
    show ?thesis
      using seg third lst
      by (simp add: BinstarFile_configuration_def configuration_from_binstar_filename_def
            item_split_0)
  qed
  have four: "4 \<le> length (str_split CHR ''-'' ''my-pkg-1.0-py27.tar.bz2'')"
    by simp
  have hosted: "BinstarFile_configuration
      (BinstarFile ''acme/my-pkg/1.0/linux-64/my-pkg-1.0-py27.tar.bz2'') = Inr ''1''"
    by code_simp
  have local: "configuration_from_binstar_filename ''my-pkg-1.0-py27.tar.bz2'' = Inr ''py27''"
    by code_simp
  have res: "\<forall>g \<in> set r. BinstarFile_configuration g =
               configuration_from_binstar_filename (snd (p_split filepath))"
    if ok: "files_to_remove p_split b user channel filepath = Inr r"
  proof -
    have rd: "readable p_split filepath (binstar_files_on_channel b user channel)"
      using files_to_remove_Inr_readable [OF ok] .
    then have tokens: "2 \<le> length (str_split CHR ''-'' (new_filename p_split filepath))"
      by (simp add: readable_def)
    from rd files_to_remove_readable [of p_split filepath b user channel] ok
    have "r = filter (removal_candidate p_split filepath) (binstar_files_on_channel b user channel)"
      by simp
    then show ?thesis
      using new_artifact_fields(3) [OF tokens] by (auto simp: removal_candidate_def)
  qed
  from agree four hosted local res show ?thesis by blast
qed

theorem configuration_extractors_agree_on_three_tokens_witness:
  "item (str_split CHR ''/'' (str_replace (CHR 0x5C) CHR ''/''
           ''acme/widget/1.3.0+1.ccc/linux-64/widget-1.3.0+1.ccc-py27.tar.bz2'')) 4 =
     Inr ''widget-1.3.0+1.ccc-py27.tar.bz2'' \<and>
   length (str_split CHR ''-'' ''widget-1.3.0+1.ccc-py27.tar.bz2'') = 3 \<and>
   BinstarFile_configuration
     (BinstarFile ''acme/widget/1.3.0+1.ccc/linux-64/widget-1.3.0+1.ccc-py27.tar.bz2'') =
     Inr ''py27'' \<and>
   configuration_from_binstar_filename ''widget-1.3.0+1.ccc-py27.tar.bz2'' = Inr ''py27'' \<and>
   files_to_remove posixpath_split
     (service_listing [''acme/widget/1.3.0+1.ccc/linux-64/widget-1.3.0+1.ccc-py27.tar.bz2''])
     ''acme'' ''master'' ''/conda-bld/linux-64/widget-1.3.0+2.def-py27.tar.bz2'' =
   Inr [BinstarFile ''acme/widget/1.3.0+1.ccc/linux-64/widget-1.3.0+1.ccc-py27.tar.bz2''] \<and>
   configuration_from_binstar_filename
     (snd (posixpath_split ''/conda-bld/linux-64/widget-1.3.0+2.def-py27.tar.bz2'')) = Inr ''py27''"
proof -
  let ?full = "''acme/widget/1.3.0+1.ccc/linux-64/widget-1.3.0+1.ccc-py27.tar.bz2''"
  let ?fn = "''widget-1.3.0+1.ccc-py27.tar.bz2''"
  let ?b = "service_listing [?full]"
  let ?fp = "''/conda-bld/linux-64/widget-1.3.0+2.def-py27.tar.bz2''"
  have seg: "item (str_split CHR ''/'' (str_replace (CHR 0x5C) CHR ''/'' ?full)) 4 = Inr ?fn"
    by code_simp
  have three: "length (str_split CHR ''-'' ?fn) = 3"
    by simp
  have r: "files_to_remove posixpath_split ?b ''acme'' ''master'' ?fp = Inr [BinstarFile ?full]"
    by code_simp
  have c: "configuration_from_binstar_filename ?fn = Inr ''py27''"
    by code_simp
  have n: "configuration_from_binstar_filename (snd (posixpath_split ?fp)) = Inr ''py27''"
    by code_simp
  from configuration_extractors_agree_on_three_tokens
         [of ?full ?fn posixpath_split ?b "''acme''" "''master''" ?fp "[BinstarFile ?full]"]
       seg three r c n
  show ?thesis by simp
qed

section \<open>Upload and purge\<close>

text \<open>
  C7. On the channel \<open>main\<close>, \<^verbatim>\<open>binstar_upload_and_purge\<close> does the upload and nothing
  else: its outcome is the outcome of the upload, whatever the file path and whatever the
  service hosts. No deletion is asked for and nothing the client reads is changed after
  the upload, also when \<^verbatim>\<open>files_to_remove\<close> would have returned candidates or raised.
\<close>

theorem main_channel_is_never_purged:
  "binstar_upload_and_purge p_split upload service mc key user ''main'' filepath =
     upload mc key user ''main'' filepath service"
  by (cases "upload mc key user ''main'' filepath service")
     (simp_all add: binstar_upload_and_purge_def)

theorem main_channel_is_never_purged_witness:
  "binstar_upload_and_purge posixpath_split upload_accepted
     (service_listing
        [''acme/widget/1.3.0+1.ccc/linux-64/widget-1.3.0+1.ccc-py27.tar.bz2'',
         ''acme/widget/1.3.0/widget-1.3.0.tar.gz''])
     ''/miniconda'' ''key'' ''acme'' ''main''
     ''/conda-bld/linux-64/widget-1.3.0+2.def-py27.tar.bz2'' =
   Inr (service_listing
        [''acme/widget/1.3.0+1.ccc/linux-64/widget-1.3.0+1.ccc-py27.tar.bz2'',
         ''acme/widget/1.3.0/widget-1.3.0.tar.gz'']) \<and>
   remove_dist (service_listing
        [''acme/widget/1.3.0+1.ccc/linux-64/widget-1.3.0+1.ccc-py27.tar.bz2'',
         ''acme/widget/1.3.0/widget-1.3.0.tar.gz'']) = [] \<and>
   binstar_upload_and_purge posixpath_split upload_accepted
     (service_listing
        [''acme/widget/1.3.0+1.ccc/linux-64/widget-1.3.0+1.ccc-py27.tar.bz2''])
     ''/miniconda'' ''key'' ''acme'' ''master''
     ''/conda-bld/linux-64/widget-1.3.0+2.def-py27.tar.bz2'' =
   Inr ((service_listing
        [''acme/widget/1.3.0+1.ccc/linux-64/widget-1.3.0+1.ccc-py27.tar.bz2''])
        \<lparr>remove_dist :=
           [(''acme'', ''widget'', ''1.3.0+1.ccc'',
             ''linux-64/widget-1.3.0+1.ccc-py27.tar.bz2'')]\<rparr>)"
proof -
  let ?names = "[''acme/widget/1.3.0+1.ccc/linux-64/widget-1.3.0+1.ccc-py27.tar.bz2'',
         ''acme/widget/1.3.0/widget-1.3.0.tar.gz'']"
  let ?fp = "''/conda-bld/linux-64/widget-1.3.0+2.def-py27.tar.bz2''"
  let ?one = "service_listing
        [''acme/widget/1.3.0+1.ccc/linux-64/widget-1.3.0+1.ccc-py27.tar.bz2'']"
  have none: "remove_dist (service_listing ?names) = []"
    by (simp add: service_listing_def)
  have r: "files_to_remove posixpath_split ?one ''acme'' ''master'' ?fp =
           Inr [BinstarFile ''acme/widget/1.3.0+1.ccc/linux-64/widget-1.3.0+1.ccc-py27.tar.bz2'']"
    by code_simp
  have rm: "binstar_remove_file ?one
              (BinstarFile ''acme/widget/1.3.0+1.ccc/linux-64/widget-1.3.0+1.ccc-py27.tar.bz2'') =
            Inr (?one\<lparr>remove_dist :=
                   [(''acme'', ''widget'', ''1.3.0+1.ccc'',
                     ''linux-64/widget-1.3.0+1.ccc-py27.tar.bz2'')]\<rparr>)"
    by (simp add: binstar_remove_file_def BinstarFile_user_def BinstarFile_name_def
          BinstarFile_version_def BinstarFile_basename_def item_def service_listing_def)
  have master: "binstar_upload_and_purge posixpath_split upload_accepted ?one ''/miniconda'' ''key'' ''acme''
                  ''master'' ?fp =
                Inr (?one\<lparr>remove_dist :=
                   [(''acme'', ''widget'', ''1.3.0+1.ccc'',
                     ''linux-64/widget-1.3.0+1.ccc-py27.tar.bz2'')]\<rparr>)"
    by (simp add: binstar_upload_and_purge_def upload_accepted_def purge_old_binstar_files_def
          r rm)
  from main_channel_is_never_purged
         [of posixpath_split upload_accepted "service_listing ?names" "''/miniconda''" "''key''"
             "''acme''" ?fp]
       none master
  show ?thesis by (simp add: upload_accepted_def)
qed

section \<open>The version from git\<close>

text \<open>
  C5, as the claim states it, fails. The tag \<open>v1.2.0\<close> does not split into three parts,
  and what is returned is \<open>1.2.0\<close>, not the raw output: the leading \<open>v\<close> has gone, under
  Python 2 and under Python 3. And under Python 3 the two bytes \<open>0xE9 0x31\<close>, a tag name
  in Latin-1, do not split into three parts either, and decoding them raises
  UnicodeDecodeError.
\<close>

theorem version_from_git_tags_strips_v_and_may_raise:
  "version_from_git_tags 2 (0, ''v1.2.0'') = Inr ([git_warning], ''1.2.0'') \<and>
   version_from_git_tags 3 (0, ''v1.2.0'') = Inr ([git_warning], ''1.2.0'') \<and>
   length (str_split CHR ''-'' ''v1.2.0'') = 1 \<and>
   version_from_git_tags 3 (0, [CHR 0xE9, CHR ''1'']) = Inl UnicodeDecodeError \<and>
   length (str_split CHR ''-'' [CHR 0xE9, CHR ''1'']) = 1"
proof -
  have "version_from_git_tags 2 (0, ''v1.2.0'') = Inr ([git_warning], ''1.2.0'')"
    by code_simp
  moreover have "version_from_git_tags 3 (0, ''v1.2.0'') = Inr ([git_warning], ''1.2.0'')"
    by code_simp
  moreover have "version_from_git_tags 3 (0, [CHR 0xE9, CHR ''1'']) = Inl UnicodeDecodeError"
    by code_simp
  ultimately show ?thesis by simp
qed

text \<open>
  C5, amended. Let the raw output be what \<^verbatim>\<open>git describe --tags\<close> printed, with the
  white space around it removed; let the command have succeeded, and, when the script runs
  under Python 3, let the raw output be well-formed UTF-8. If the raw output without one
  leading \<open>v\<close> or \<open>V\<close> splits at its dashes into exactly three parts, base, count and
  hash, the result is base, \<open>+\<close>, count, a dot and hash, and nothing is printed. If the
  raw output is not empty and does not split into exactly three parts, the result is the
  raw output without one leading \<open>v\<close> or \<open>V\<close>, otherwise unchanged, and the warning is
  printed; nothing is raised. Whether the raw output or the raw output without its leading
  \<open>v\<close> is split makes no difference to the number of parts.
\<close>

theorem version_from_git_tags_rewrites:
  "((major = 3 \<longrightarrow> utf8 (str_strip output)) \<and>
    str_split CHR ''-'' (strip_v (str_strip output)) = [base, n_commits, sha] \<longrightarrow>
      version_from_git_tags major (0, output) =
        Inr ([], base @ ''+'' @ n_commits @ ''.'' @ sha)) \<and>
   ((major = 3 \<longrightarrow> utf8 (str_strip output)) \<and>
    str_strip output \<noteq> [] \<and> length (str_split CHR ''-'' (str_strip output)) \<noteq> 3 \<longrightarrow>
      version_from_git_tags major (0, output) =
        Inr ([git_warning], strip_v (str_strip output))) \<and>
   length (str_split CHR ''-'' (strip_v (str_strip output))) =
     length (str_split CHR ''-'' (str_strip output))"
proof -
  let ?raw = "str_strip output"
  have "filter (\<lambda>c. c = CHR ''-'') (strip_v ?raw) = filter (\<lambda>c. c = CHR ''-'') ?raw"
    by (cases ?raw) (auto simp: strip_v_def)
  then have same_parts:
    "length (str_split CHR ''-'' (strip_v ?raw)) = length (str_split CHR ''-'' ?raw)"
    by (simp only: length_str_split)
  have three: "version_from_git_tags major (0, output) =
                 Inr ([], base @ ''+'' @ n_commits @ ''.'' @ sha)"
    if dec: "major = 3 \<longrightarrow> utf8 ?raw"
      and parts: "str_split CHR ''-'' (strip_v ?raw) = [base, n_commits, sha]"
  proof -
    from parts have "length (str_split CHR ''-'' ?raw) = 3"
      using same_parts by simp
    then have "?raw \<noteq> []" by auto
    from version_from_git_tags_nonempty [OF this dec] parts show ?thesis by simp
  qed
  have other: "version_from_git_tags major (0, output) = Inr ([git_warning], strip_v ?raw)"
    if dec: "major = 3 \<longrightarrow> utf8 ?raw"
      and ne: "?raw \<noteq> []" and parts: "length (str_split CHR ''-'' ?raw) \<noteq> 3"
  proof -
    from parts same_parts have "length (str_split CHR ''-'' (strip_v ?raw)) \<noteq> 3" by simp
    then have "(case str_split CHR ''-'' (strip_v ?raw) of
                  [v, n, s] \<Rightarrow> Inr ([], v @ ''+'' @ n @ ''.'' @ s)
                | _ \<Rightarrow> Inr ([git_warning], strip_v ?raw)) =
               (Inr ([git_warning], strip_v ?raw) :: error + (string list \<times> string))"
      by (auto split: list.splits)
    with version_from_git_tags_nonempty [OF ne dec] show ?thesis by simp
  qed
  from three other same_parts show ?thesis by blast
qed

theorem version_from_git_tags_rewrites_witness:
  "utf8 (str_strip (''v1.2.0-5-gabcdef'' @ [CHR 0x0A])) \<and>
   str_split CHR ''-'' (strip_v (str_strip (''v1.2.0-5-gabcdef'' @ [CHR 0x0A]))) =
     [''1.2.0'', ''5'', ''gabcdef''] \<and>
   version_from_git_tags 3 (0, ''v1.2.0-5-gabcdef'' @ [CHR 0x0A]) =
     Inr ([], ''1.2.0+5.gabcdef'') \<and>
   utf8 (str_strip (''V1.2.0rc1'' @ [CHR 0x0A])) \<and>
   str_strip (''V1.2.0rc1'' @ [CHR 0x0A]) \<noteq> [] \<and>
   length (str_split CHR ''-'' (str_strip (''V1.2.0rc1'' @ [CHR 0x0A]))) \<noteq> 3 \<and>
   version_from_git_tags 3 (0, ''V1.2.0rc1'' @ [CHR 0x0A]) = Inr ([git_warning], ''1.2.0rc1'') \<and>
   version_from_git_tags 2 (0, [CHR 0xE9, CHR ''1'', CHR 0x0A]) =
     Inr ([git_warning], [CHR 0xE9, CHR ''1''])"
proof -
  have s1: "str_strip (''v1.2.0-5-gabcdef'' @ [CHR 0x0A]) = ''v1.2.0-5-gabcdef''"
    by code_simp
  have u1: "utf8 ''v1.2.0-5-gabcdef''"
    by code_simp
  have p1: "str_split CHR ''-'' (strip_v ''v1.2.0-5-gabcdef'') = [''1.2.0'', ''5'', ''gabcdef'']"
    by code_simp
  have s2: "str_strip (''V1.2.0rc1'' @ [CHR 0x0A]) = ''V1.2.0rc1''"
    by code_simp
  have u2: "utf8 ''V1.2.0rc1''"
    by code_simp
  have p2: "strip_v ''V1.2.0rc1'' = ''1.2.0rc1''"
    by code_simp
  have s3: "str_strip [CHR 0xE9, CHR ''1'', CHR 0x0A] = [CHR 0xE9, CHR ''1'']"
    by code_simp
  have p3: "strip_v [CHR 0xE9, CHR ''1''] = [CHR 0xE9, CHR ''1'']"
    by code_simp
  from version_from_git_tags_rewrites
         [of 3 "''v1.2.0-5-gabcdef'' @ [CHR 0x0A]" "''1.2.0''" "''5''" "''gabcdef''"]
       version_from_git_tags_rewrites [of 3 "''V1.2.0rc1'' @ [CHR 0x0A]"]
       version_from_git_tags_rewrites [of 2 "[CHR 0xE9, CHR ''1'', CHR 0x0A]"]
       s1 u1 p1 s2 u2 p2 s3 p3
  show ?thesis by simp
qed

end
